theory Spec2Isabelle
  imports Main
begin

section \<open>JSON values and the Python operations the code applies to them\<close>

text \<open>
  The payloads are what \<^verbatim>\<open>json.load\<close> returns: \<^verbatim>\<open>None\<close>, booleans, integers,
  strings, lists and dicts with string keys. A dict is an association list read with
  \<open>map_of\<close>. Numbers with a fraction are left out of the model: no operation of the
  code below looks at a number other than through its truth value.
\<close>

datatype json =
    JNull
  | JBool bool
  | JInt int
  | JStr string
  | JList "json list"
  | JObj "(string \<times> json) list"

text \<open>The exceptions the modelled code can raise.\<close>

datatype py_error = AttributeError | IndexError | KeyError | TypeError | DuplicateKeyError

definition bindE :: "'e + 'a \<Rightarrow> ('a \<Rightarrow> 'e + 'b) \<Rightarrow> 'e + 'b" where
  "bindE m f = (case m of Inl e \<Rightarrow> Inl e | Inr x \<Rightarrow> f x)"

text \<open>Python's truth value of an object (\<^verbatim>\<open>if x:\<close>, \<^verbatim>\<open>not x\<close>, \<^verbatim>\<open>a or b\<close>).\<close>

fun truthy :: "json \<Rightarrow> bool" where
  "truthy JNull = False"
| "truthy (JBool b) = b"
| "truthy (JInt i) = (i \<noteq> 0)"
| "truthy (JStr s) = (s \<noteq> [])"
| "truthy (JList xs) = (xs \<noteq> [])"
| "truthy (JObj kvs) = (kvs \<noteq> [])"

definition py_or :: "json \<Rightarrow> json \<Rightarrow> json" where
  "py_or a b = (if truthy a then a else b)"

fun is_dict :: "json \<Rightarrow> bool" where
  "is_dict (JObj kvs) = True"
| "is_dict _ = False"

text \<open>\<^verbatim>\<open>d.get(k, default)\<close> on a dict given by its items.\<close>

definition py_get :: "(string \<times> json) list \<Rightarrow> string \<Rightarrow> json \<Rightarrow> json" where
  "py_get kvs k dflt = (case map_of kvs k of None \<Rightarrow> dflt | Some v \<Rightarrow> v)"

text \<open>
  \<^verbatim>\<open>x.get(k, default)\<close> on any object: only a dict has the method, every other JSON
  value raises AttributeError.
\<close>

fun dict_get :: "json \<Rightarrow> string \<Rightarrow> json \<Rightarrow> py_error + json" where
  "dict_get (JObj kvs) k dflt = Inr (py_get kvs k dflt)"
| "dict_get _ k dflt = Inl AttributeError"

text \<open>
  \<^verbatim>\<open>x[0]\<close>: the first element of a list, the first character of a string (as a
  string of length one), IndexError when either is empty, KeyError on a dict (its keys
  are strings) and TypeError on a value that cannot be subscripted.
\<close>

fun subscript0 :: "json \<Rightarrow> py_error + json" where
  "subscript0 (JList []) = Inl IndexError"
| "subscript0 (JList (x # xs)) = Inr x"
| "subscript0 (JStr []) = Inl IndexError"
| "subscript0 (JStr (c # cs)) = Inr (JStr [c])"
| "subscript0 (JObj kvs) = Inl KeyError"
| "subscript0 _ = Inl TypeError"

text \<open>\<^verbatim>\<open>x["k"]\<close>: KeyError on a dict without the key, TypeError on anything else.\<close>

fun subscript_key :: "json \<Rightarrow> string \<Rightarrow> py_error + json" where
  "subscript_key (JObj kvs) k = (case map_of kvs k of None \<Rightarrow> Inl KeyError | Some v \<Rightarrow> Inr v)"
| "subscript_key _ k = Inl TypeError"

section \<open>The normalizer (scripts/payload_processor.py)\<close>

text \<open>
  The clock and the standard library's conversion of an epoch value are parameters:
  \<open>now\<close> is what \<^verbatim>\<open>datetime.now(timezone.utc).isoformat()\<close> returns, and
  \<open>to_iso ts\<close> is \<^verbatim>\<open>datetime.fromtimestamp(int(ts), tz=timezone.utc).isoformat()\<close>,
  with \<open>None\<close> where that expression raises (the code catches the exception and sets
  \<^verbatim>\<open>timestamp_iso = None\<close>).
\<close>

definition timestamp_iso :: "(json \<Rightarrow> string option) \<Rightarrow> json \<Rightarrow> string option" where
  "timestamp_iso to_iso ts = (if truthy ts then to_iso ts else None)"

text \<open>\<^verbatim>\<open>timestamp_iso or datetime.now(timezone.utc).isoformat()\<close>\<close>

definition iso_or_now :: "string \<Rightarrow> string option \<Rightarrow> json" where
  "iso_or_now now t = (case t of None \<Rightarrow> JStr now | Some s \<Rightarrow> if s = [] then JStr now else JStr s)"

text \<open>
  The sender of an inbound message: \<^verbatim>\<open>wa_id = None\<close>, and when \<^verbatim>\<open>contacts\<close> is
  true, \<^verbatim>\<open>contacts[0].get("wa_id") or contacts[0].get("waId")\<close>.
\<close>

definition contact_wa_id :: "json \<Rightarrow> py_error + json" where
  "contact_wa_id contacts =
     (if truthy contacts then
        bindE (subscript0 contacts) (\<lambda>c.
        bindE (dict_get c ''wa_id'' JNull) (\<lambda>a.
          if truthy a then Inr a else dict_get c ''waId'' JNull))
      else Inr JNull)"

text \<open>
  The text body: \<^verbatim>\<open>msg["text"].get("body", "")\<close> when \<^verbatim>\<open>msg.get("text")\<close> is a dict,
  else \<^verbatim>\<open>msg["message"].get("body", "")\<close> when \<^verbatim>\<open>msg.get("message")\<close> is a dict, else
  the empty string.
\<close>

definition message_text :: "json \<Rightarrow> py_error + json" where
  "message_text msg =
     bindE (dict_get msg ''text'' JNull) (\<lambda>t.
       if is_dict t then
         bindE (subscript_key msg ''text'') (\<lambda>t'. dict_get t' ''body'' (JStr ''''))
       else
         bindE (dict_get msg ''message'' JNull) (\<lambda>m.
           if is_dict m then
             bindE (subscript_key msg ''message'') (\<lambda>m'. dict_get m' ''body'' (JStr ''''))
           else Inr (JStr '''')))"

text \<open>The branch \<^verbatim>\<open>if value.get("messages"):\<close> of the try block.\<close>

definition inbound_message :: "(json \<Rightarrow> string option) \<Rightarrow> string \<Rightarrow> json \<Rightarrow> py_error + json" where
  "inbound_message to_iso now val =
     bindE (subscript_key val ''messages'') (\<lambda>msgs.
     bindE (subscript0 msgs) (\<lambda>msg.
     bindE (dict_get val ''contacts'' (JList [])) (\<lambda>contacts.
     bindE (contact_wa_id contacts) (\<lambda>wa.
     bindE (message_text msg) (\<lambda>txt.
     bindE (dict_get msg ''id'' JNull) (\<lambda>i.
     bindE (if truthy i then Inr i else dict_get msg ''mid'' JNull) (\<lambda>meta_id.
     bindE (dict_get msg ''timestamp'' JNull) (\<lambda>t.
     bindE (if truthy t then Inr t else dict_get msg ''ts'' JNull) (\<lambda>ts.
       Inr (JObj
         [(''type'', JStr ''message''),
          (''wa_id'', wa),
          (''meta_msg_id'', meta_id),
          (''text'', txt),
          (''timestamp'', iso_or_now now (timestamp_iso to_iso ts)),
          (''direction'', JStr ''inbound''),
          (''status'', JStr ''delivered'')]))))))))))"

text \<open>The branch \<^verbatim>\<open>if value.get("statuses"):\<close> of the try block.\<close>

definition status_update :: "(json \<Rightarrow> string option) \<Rightarrow> string \<Rightarrow> json \<Rightarrow> py_error + json" where
  "status_update to_iso now val =
     bindE (subscript_key val ''statuses'') (\<lambda>sts.
     bindE (subscript0 sts) (\<lambda>st.
     bindE (dict_get st ''id'' JNull) (\<lambda>meta_id.
     bindE (dict_get st ''status'' JNull) (\<lambda>s.
     bindE (dict_get st ''timestamp'' JNull) (\<lambda>ts.
       Inr (JObj
         [(''type'', JStr ''status''),
          (''meta_msg_id'', meta_id),
          (''status'', s),
          (''timestamp'', iso_or_now now (timestamp_iso to_iso ts))]))))))"

text \<open>
  The first three statements of the try block: \<^verbatim>\<open>entry = meta.get("entry", [])[0]\<close>,
  \<^verbatim>\<open>change = entry.get("changes", [])[0]\<close>, \<^verbatim>\<open>value = change.get("value", {})\<close>.
\<close>

definition envelope_value :: "json \<Rightarrow> py_error + json" where
  "envelope_value meta =
     bindE (dict_get meta ''entry'' (JList [])) (\<lambda>entries.
     bindE (subscript0 entries) (\<lambda>entry.
     bindE (dict_get entry ''changes'' (JList [])) (\<lambda>changes.
     bindE (subscript0 changes) (\<lambda>change.
       dict_get change ''value'' (JObj [])))))"

text \<open>
  The body of the try block, applied to \<^verbatim>\<open>meta\<close>. \<open>Inl e\<close>: the body raised \<open>e\<close>;
  \<open>Inr (Some ev)\<close>: it returned the event \<open>ev\<close>; \<open>Inr None\<close>: it ran to its end
  without returning.
\<close>

definition parse_envelope ::
    "(json \<Rightarrow> string option) \<Rightarrow> string \<Rightarrow> json \<Rightarrow> py_error + json option" where
  "parse_envelope to_iso now meta =
     bindE (envelope_value meta) (\<lambda>val.
     bindE (dict_get val ''messages'' JNull) (\<lambda>msgs.
       if truthy msgs then bindE (inbound_message to_iso now val) (\<lambda>ev. Inr (Some ev))
       else
         bindE (dict_get val ''statuses'' JNull) (\<lambda>sts.
           if truthy sts then bindE (status_update to_iso now val) (\<lambda>ev. Inr (Some ev))
           else Inr None)))"

text \<open>\<^verbatim>\<open>meta = raw.get("metaData") or raw.get("meta_data") or {}\<close>\<close>

definition envelope_meta :: "(string \<times> json) list \<Rightarrow> json" where
  "envelope_meta kvs =
     py_or (py_get kvs ''metaData'' JNull) (py_or (py_get kvs ''meta_data'' JNull) (JObj []))"

text \<open>
  \<^verbatim>\<open>normalize_webhook_payload(raw)\<close>: \<open>None\<close> is Python's \<^verbatim>\<open>None\<close> (the spec's
  Unrecognized). The \<^verbatim>\<open>except Exception\<close> clause turns every exception of the try
  block into \<^verbatim>\<open>return None\<close>.
\<close>

definition normalize_webhook_payload ::
    "(json \<Rightarrow> string option) \<Rightarrow> string \<Rightarrow> json \<Rightarrow> json option" where
  "normalize_webhook_payload to_iso now raw =
     (case raw of
        JObj kvs \<Rightarrow>
          if py_get kvs ''type'' JNull \<in> {JStr ''message'', JStr ''status''} then Some raw
          else
            let meta = envelope_meta kvs
            in if truthy meta then
                 (case parse_envelope to_iso now meta of
                    Inl e \<Rightarrow> None
                  | Inr r \<Rightarrow> r)
               else None
      | _ \<Rightarrow> None)"

section \<open>The durable store\<close>

text \<open>
  Both programs work on the collection \<^verbatim>\<open>processed_messages\<close>; the batch processor
  also on \<^verbatim>\<open>pending_status_updates\<close>. A collection is the list of its documents in
  insertion order. The documents of \<^verbatim>\<open>processed_messages\<close> are written by this
  repository only, always with the six fields below (\<open>text_field\<close> is the key
  \<^verbatim>\<open>text\<close>); those of \<^verbatim>\<open>pending_status_updates\<close> always with the three fields of
  the upsert. A filter \<^verbatim>\<open>{"meta_msg_id": mid}\<close> selects the documents whose field equals
  \<open>mid\<close>, which is how the store matches an id that is a string; the theorems about ids
  are stated for non-empty strings. The driver is modelled where it answers: a store
  that cannot be reached or a document that cannot be encoded is outside the model.
\<close>

record message_doc =
  wa_id :: json
  text_field :: json
  meta_msg_id :: json
  direction :: json
  status :: json
  timestamp :: json

record pending_doc =
  pending_meta_msg_id :: json
  new_status :: json
  received_at :: json

record database =
  messages_col :: "message_doc list"
  pending_col :: "pending_doc list"

text \<open>\<^verbatim>\<open>find_one({"meta_msg_id": mid})\<close>: the first document whose field equals \<open>mid\<close>.\<close>

definition find_one :: "message_doc list \<Rightarrow> json \<Rightarrow> message_doc option" where
  "find_one col mid = List.find (\<lambda>d. meta_msg_id d = mid) col"

text \<open>
  \<^verbatim>\<open>update_one({"meta_msg_id": mid}, {"$set": {"status": v}})\<close>: the first matching
  document gets the status \<open>v\<close>. The second component is \<^verbatim>\<open>modified_count\<close>: 1 when
  a document matched and its status changed, 0 when none matched or the matching one
  already had the status \<open>v\<close>.
\<close>

fun update_one_status :: "message_doc list \<Rightarrow> json \<Rightarrow> json \<Rightarrow> message_doc list \<times> nat" where
  "update_one_status [] mid v = ([], 0)"
| "update_one_status (d # ds) mid v =
     (if meta_msg_id d = mid then
        (if status d = v then (d # ds, 0) else (d\<lparr>status := v\<rparr> # ds, 1))
      else (d # fst (update_one_status ds mid v), snd (update_one_status ds mid v)))"

text \<open>\<^verbatim>\<open>insert_one(doc)\<close> on a collection without a unique index (the batch processor
  creates none).\<close>

definition insert_one :: "message_doc list \<Rightarrow> message_doc \<Rightarrow> message_doc list" where
  "insert_one col doc = col @ [doc]"

text \<open>
  \<^verbatim>\<open>insert_one(doc)\<close> under the unique index on \<^verbatim>\<open>meta_msg_id\<close> that the server's
  startup hook creates: the driver raises DuplicateKeyError when a document with the
  same key is stored, and the collection stays as it was.
\<close>

definition insert_one_unique :: "message_doc list \<Rightarrow> message_doc \<Rightarrow> py_error + message_doc list" where
  "insert_one_unique col doc =
     (if \<exists>d \<in> set col. meta_msg_id d = meta_msg_id doc then Inl DuplicateKeyError
      else Inr (col @ [doc]))"

definition find_one_pending :: "pending_doc list \<Rightarrow> json \<Rightarrow> pending_doc option" where
  "find_one_pending col mid = List.find (\<lambda>p. pending_meta_msg_id p = mid) col"

text \<open>
  \<^verbatim>\<open>update_one({"meta_msg_id": mid}, {"$set": {"new_status": v, "received_at": t}}, upsert=True)\<close>:
  the first matching document is updated; when none matches, a document made of the
  filter and the update is inserted.
\<close>

fun upsert_pending :: "pending_doc list \<Rightarrow> json \<Rightarrow> json \<Rightarrow> json \<Rightarrow> pending_doc list" where
  "upsert_pending [] mid v t = [\<lparr>pending_meta_msg_id = mid, new_status = v, received_at = t\<rparr>]"
| "upsert_pending (p # ps) mid v t =
     (if pending_meta_msg_id p = mid then p\<lparr>new_status := v, received_at := t\<rparr> # ps
      else p # upsert_pending ps mid v t)"

text \<open>\<^verbatim>\<open>delete_one({"meta_msg_id": mid})\<close>: the first matching document is removed.\<close>

fun delete_one_pending :: "pending_doc list \<Rightarrow> json \<Rightarrow> pending_doc list" where
  "delete_one_pending [] mid = []"
| "delete_one_pending (p # ps) mid =
     (if pending_meta_msg_id p = mid then ps else p # delete_one_pending ps mid)"

section \<open>The batch processor (scripts/payload_processor.py)\<close>

text \<open>The lines the loop of \<^verbatim>\<open>process_path\<close> prints, one constructor for each \<^verbatim>\<open>print\<close> of the loop body.\<close>

datatype log_line =
    ErrorCantRead
  | SkipUnknownStructure
  | SkipMessageMissingId
  | SkipDuplicate json
  | Applied json json
  | Inserted json
  | SkipStatusMissingId
  | Updated json json
  | Pending json json
  | SkipUnknownType
  | ErrorProcessing py_error

text \<open>Which of the three counters the iteration increments.\<close>

datatype tally = Processed | Skipped | Errored

text \<open>
  The block under the comment \<^verbatim>\<open># apply pending status if any\<close>, which the source has
  twice (after a duplicate and after an insertion).
\<close>

definition apply_pending :: "database \<Rightarrow> json \<Rightarrow> database \<times> log_line list" where
  "apply_pending db mid =
     (case find_one_pending (pending_col db) mid of
        None \<Rightarrow> (db, [])
      | Some pending \<Rightarrow>
          (db\<lparr>messages_col := fst (update_one_status (messages_col db) mid (new_status pending)),
              pending_col := delete_one_pending (pending_col db) mid\<rparr>,
           [Applied (new_status pending) mid]))"

text \<open>The document \<^verbatim>\<open>doc\<close> that the message branch builds from the payload.\<close>

definition new_doc :: "string \<Rightarrow> (string \<times> json) list \<Rightarrow> message_doc" where
  "new_doc now payload =
     \<lparr>wa_id = py_get payload ''wa_id'' JNull,
      text_field = py_get payload ''text'' JNull,
      meta_msg_id = py_get payload ''meta_msg_id'' JNull,
      direction = py_get payload ''direction'' (JStr ''inbound''),
      status = py_get payload ''status'' (JStr ''delivered''),
      timestamp = py_or (py_get payload ''timestamp'' JNull) (JStr now)\<rparr>"

text \<open>The branch \<^verbatim>\<open>if payload["type"] == "message":\<close>.\<close>

definition process_message ::
    "string \<Rightarrow> (string \<times> json) list \<Rightarrow> database \<Rightarrow> database \<times> log_line list \<times> tally" where
  "process_message now payload db =
     (let mid = py_get payload ''meta_msg_id'' JNull in
      if \<not> truthy mid then (db, [SkipMessageMissingId], Skipped)
      else
        (case find_one (messages_col db) mid of
           Some existing \<Rightarrow>
             (fst (apply_pending db mid), SkipDuplicate mid # snd (apply_pending db mid), Skipped)
         | None \<Rightarrow>
             let db1 = db\<lparr>messages_col := insert_one (messages_col db) (new_doc now payload)\<rparr>
             in (fst (apply_pending db1 mid), Inserted mid # snd (apply_pending db1 mid), Processed)))"

text \<open>The branch \<^verbatim>\<open>elif payload["type"] == "status":\<close>.\<close>

definition process_status ::
    "string \<Rightarrow> (string \<times> json) list \<Rightarrow> database \<Rightarrow> database \<times> log_line list \<times> tally" where
  "process_status now payload db =
     (let mid = py_get payload ''meta_msg_id'' JNull in
      if \<not> truthy mid then (db, [SkipStatusMissingId], Skipped)
      else
        let result = update_one_status (messages_col db) mid (py_get payload ''status'' JNull);
            db1 = db\<lparr>messages_col := fst result\<rparr>
        in if snd result > 0 then
             (db1, [Updated mid (py_get payload ''status'' JNull)], Processed)
           else
             (db1\<lparr>pending_col :=
                    upsert_pending (pending_col db1) mid (py_get payload ''status'' JNull) (JStr now)\<rparr>,
              [Pending (py_get payload ''status'' JNull) mid], Processed))"

text \<open>
  The second try block of the loop body, for a normalized payload. \<^verbatim>\<open>payload["type"]\<close>
  raises KeyError on a dict without the key and TypeError on a payload that is not a
  dict; the \<^verbatim>\<open>except Exception\<close> clause prints the error and counts it.
\<close>

definition process_payload ::
    "string \<Rightarrow> json \<Rightarrow> database \<Rightarrow> database \<times> log_line list \<times> tally" where
  "process_payload now payload db =
     (case subscript_key payload ''type'' of
        Inl e \<Rightarrow> (db, [ErrorProcessing e], Errored)
      | Inr ty \<Rightarrow>
          (case payload of
             JObj kvs \<Rightarrow>
               if ty = JStr ''message'' then process_message now kvs db
               else if ty = JStr ''status'' then process_status now kvs db
               else (db, [SkipUnknownType], Skipped)
           | _ \<Rightarrow> (db, [ErrorProcessing TypeError], Errored)))"

text \<open>
  The state of a run: the store, the three counters and what was printed. A file is
  the clock reading at its iteration and what \<^verbatim>\<open>json.load\<close> gave: \<open>None\<close> when the
  file could not be read or parsed.
\<close>

record run =
  store :: database
  processed :: nat
  skipped :: nat
  errors :: nat
  printed :: "log_line list"

definition count :: "tally \<Rightarrow> run \<Rightarrow> run" where
  "count t r =
     (case t of
        Processed \<Rightarrow> r\<lparr>processed := processed r + 1\<rparr>
      | Skipped \<Rightarrow> r\<lparr>skipped := skipped r + 1\<rparr>
      | Errored \<Rightarrow> r\<lparr>errors := errors r + 1\<rparr>)"

text \<open>One iteration of \<^verbatim>\<open>for filepath in sorted(files)\<close>.\<close>

definition process_file ::
    "(json \<Rightarrow> string option) \<Rightarrow> run \<Rightarrow> string \<times> json option \<Rightarrow> run" where
  "process_file to_iso r f =
     (case snd f of
        None \<Rightarrow> count Errored (r\<lparr>printed := printed r @ [ErrorCantRead]\<rparr>)
      | Some raw \<Rightarrow>
          (case normalize_webhook_payload to_iso (fst f) raw of
             None \<Rightarrow> count Skipped (r\<lparr>printed := printed r @ [SkipUnknownStructure]\<rparr>)
           | Some payload \<Rightarrow>
               if \<not> truthy payload then
                 count Skipped (r\<lparr>printed := printed r @ [SkipUnknownStructure]\<rparr>)
               else
                 (case process_payload (fst f) payload (store r) of
                    (db', out, t) \<Rightarrow> count t (r\<lparr>store := db', printed := printed r @ out\<rparr>))))"

text \<open>The loop over the files, already in the order \<^verbatim>\<open>sorted(files)\<close> gives.\<close>

definition process_files ::
    "(json \<Rightarrow> string option) \<Rightarrow> run \<Rightarrow> (string \<times> json option) list \<Rightarrow> run" where
  "process_files to_iso r fs = foldl (process_file to_iso) r fs"

section \<open>The server (app/main.py)\<close>

definition VALID_STATUS_TRANSITIONS :: "(string \<times> string list) list" where
  "VALID_STATUS_TRANSITIONS =
     [(''sent'', [''delivered'', ''read'']),
      (''delivered'', [''read'']),
      (''read'', [])]"

text \<open>
  \<^verbatim>\<open>VALID_STATUS_TRANSITIONS.get(current_status, [])\<close>: the keys are strings, so any
  other hashable value gets the default; a list or a dict is unhashable and the lookup
  raises TypeError.
\<close>

fun valid_next :: "json \<Rightarrow> py_error + json list" where
  "valid_next (JStr s) =
     Inr (map JStr (case map_of VALID_STATUS_TRANSITIONS s of None \<Rightarrow> [] | Some xs \<Rightarrow> xs))"
| "valid_next (JList xs) = Inl TypeError"
| "valid_next (JObj kvs) = Inl TypeError"
| "valid_next _ = Inr []"

text \<open>
  What a handler raises: an \<^verbatim>\<open>HTTPException\<close> with its status code and detail, its
  two subclasses \<^verbatim>\<open>MessageNotFound\<close> (404) and \<^verbatim>\<open>InvalidStatusTransition\<close> (400, with
  the current and the requested status), or another Python exception.
\<close>

datatype raised =
    HTTPException nat string
  | MessageNotFound
  | InvalidStatusTransition json json
  | PyError py_error

fun status_code :: "raised \<Rightarrow> nat option" where
  "status_code (HTTPException c d) = Some c"
| "status_code MessageNotFound = Some 404"
| "status_code (InvalidStatusTransition c n) = Some 400"
| "status_code (PyError e) = None"

text \<open>
  \<^verbatim>\<open>db_insert_message\<close>: the timestamp is set, the document inserted under the unique
  index and read back. Whatever the try block raises becomes
  \<^verbatim>\<open>HTTPException(500, "Database insert error")\<close>.
\<close>

definition db_insert_message ::
    "string \<Rightarrow> message_doc \<Rightarrow> message_doc list \<Rightarrow> message_doc list \<times> (raised + message_doc option)" where
  "db_insert_message now message_data col =
     (let doc = message_data\<lparr>timestamp := JStr now\<rparr> in
      case insert_one_unique col doc of
        Inl e \<Rightarrow> (col, Inl (HTTPException 500 ''Database insert error''))
      | Inr col' \<Rightarrow> (col', Inr (find_one col' (meta_msg_id doc))))"

text \<open>
  \<^verbatim>\<open>db_update_message_status\<close>. The stored documents always have the key
  \<^verbatim>\<open>status\<close>, so \<^verbatim>\<open>current.get("status", "sent")\<close> is the stored status.
\<close>

definition db_update_message_status ::
    "message_doc list \<Rightarrow> json \<Rightarrow> json \<Rightarrow> message_doc list \<times> (raised + nat)" where
  "db_update_message_status col mid new =
     (case find_one col mid of
        None \<Rightarrow> (col, Inr 0)
      | Some current \<Rightarrow>
          let current_status = status current in
          (case valid_next current_status of
             Inl e \<Rightarrow> (col, Inl (PyError e))
           | Inr allowed \<Rightarrow>
               if new \<notin> set allowed then (col, Inl (InvalidStatusTransition current_status new))
               else (fst (update_one_status col mid new), Inr (snd (update_one_status col mid new)))))"

text \<open>
  \<^verbatim>\<open>payload.get("type", "").lower().strip()\<close>. Only a string has \<^verbatim>\<open>lower\<close>. The model
  lowers the ASCII letters and strips the ASCII white space (the characters 9 to 13,
  28 to 31 and 32).
\<close>

definition lower_char :: "char \<Rightarrow> char" where
  "lower_char c = (let n = of_char c :: nat in if 65 \<le> n \<and> n \<le> 90 then char_of (n + 32) else c)"

definition is_space :: "char \<Rightarrow> bool" where
  "is_space c = (let n = of_char c :: nat in (9 \<le> n \<and> n \<le> 13) \<or> (28 \<le> n \<and> n \<le> 32))"

definition py_strip :: "string \<Rightarrow> string" where
  "py_strip s = rev (dropWhile is_space (rev (dropWhile is_space s)))"

fun event_type :: "json \<Rightarrow> py_error + string" where
  "event_type (JStr s) = Inr (py_strip (map lower_char s))"
| "event_type _ = Inl AttributeError"

datatype response = MessageReceived | StatusUpdated

text \<open>
  The two except clauses of the handler: an \<^verbatim>\<open>HTTPException\<close> is raised again, any
  other exception becomes \<^verbatim>\<open>HTTPException(500, "Internal server error")\<close>.
\<close>

fun reraise :: "raised \<Rightarrow> raised" where
  "reraise (PyError e) = HTTPException 500 ''Internal server error''"
| "reraise h = h"

text \<open>
  \<^verbatim>\<open>process_webhook_payload\<close>, the handler of POST /webhook, on the collection. The
  call of \<^verbatim>\<open>sio.emit\<close> (the notifier) is outside the model: it is taken to return.
\<close>

definition webhook_message ::
    "string \<Rightarrow> (string \<times> json) list \<Rightarrow> message_doc list \<Rightarrow> message_doc list \<times> (raised + response)" where
  "webhook_message now payload col =
     (case (map_of payload ''wa_id'', map_of payload ''text'', map_of payload ''meta_msg_id'') of
        (Some w, Some t, Some mid) \<Rightarrow>
          let message_data = \<lparr>wa_id = w, text_field = t, meta_msg_id = mid,
                               direction = JStr ''inbound'',
                               status = py_get payload ''status'' (JStr ''delivered''),
                               timestamp = JNull\<rparr>
          in (case db_insert_message now message_data col of
                (col', Inl h) \<Rightarrow> (col', Inl h)
              | (col', Inr None) \<Rightarrow> (col', Inl (PyError TypeError))
              | (col', Inr (Some saved)) \<Rightarrow> (col', Inr MessageReceived))
      | _ \<Rightarrow> (col, Inl (PyError KeyError)))"

definition webhook_status ::
    "(string \<times> json) list \<Rightarrow> message_doc list \<Rightarrow> message_doc list \<times> (raised + response)" where
  "webhook_status payload col =
     (case (map_of payload ''meta_msg_id'', map_of payload ''status'') of
        (Some mid, Some new) \<Rightarrow>
          (case db_update_message_status col mid new of
             (col', Inl h) \<Rightarrow> (col', Inl h)
           | (col', Inr modified_count) \<Rightarrow>
               if modified_count \<noteq> 0 then (col', Inr StatusUpdated)
               else (col', Inl MessageNotFound))
      | _ \<Rightarrow> (col, Inl (PyError KeyError)))"

definition process_webhook_payload ::
    "string \<Rightarrow> (string \<times> json) list \<Rightarrow> message_doc list \<Rightarrow> message_doc list \<times> (raised + response)" where
  "process_webhook_payload now payload col =
     (case
        (case event_type (py_get payload ''type'' (JStr '''')) of
           Inl e \<Rightarrow> (col, Inl (PyError e))
         | Inr ty \<Rightarrow>
             if ty = ''message'' then webhook_message now payload col
             else if ty = ''status'' then webhook_status payload col
             else (col, Inl (HTTPException 400 ''Invalid event type'')))
      of (col', Inl h) \<Rightarrow> (col', Inl (reraise h))
       | (col', Inr ok) \<Rightarrow> (col', Inr ok))"

section \<open>Observations on the store\<close>

text \<open>The stored status of the message with the id \<open>mid\<close>, when there is one.\<close>

definition stored_status :: "database \<Rightarrow> json \<Rightarrow> json option" where
  "stored_status d mid = map_option status (find_one (messages_col d) mid)"

text \<open>How many message records, and how many pending entries, carry the id \<open>mid\<close>.\<close>

definition message_count :: "message_doc list \<Rightarrow> json \<Rightarrow> nat" where
  "message_count col mid = length (filter (\<lambda>d. meta_msg_id d = mid) col)"

definition pending_count :: "pending_doc list \<Rightarrow> json \<Rightarrow> nat" where
  "pending_count ps mid = length (filter (\<lambda>p. pending_meta_msg_id p = mid) ps)"

section \<open>Facts about the store operations\<close>

lemma py_get_Some: "map_of kvs k = Some v \<Longrightarrow> py_get kvs k dflt = v"
  by (simp add: py_get_def)

lemma find_one_Cons:
  "find_one (d # ds) mid = (if meta_msg_id d = mid then Some d else find_one ds mid)"
  by (simp add: find_one_def)

lemma find_one_Nil: "find_one [] mid = None"
  by (simp add: find_one_def)

lemma update_one_status_absent:
  "find_one col mid = None \<Longrightarrow> update_one_status col mid v = (col, 0)"
  by (induction col) (auto simp: find_one_Cons find_one_Nil split: if_splits)

lemma update_one_status_same:
  "find_one col mid = Some d \<Longrightarrow> status d = v \<Longrightarrow> update_one_status col mid v = (col, 0)"
  by (induction col) (auto simp: find_one_Cons find_one_Nil split: if_splits)

lemma update_one_status_changed:
  "find_one col mid = Some d \<Longrightarrow> status d \<noteq> v \<Longrightarrow> snd (update_one_status col mid v) = 1"
  by (induction col) (auto simp: find_one_Cons find_one_Nil split: if_splits)

lemma find_one_update_one_status:
  "find_one (fst (update_one_status col mid v)) mid =
     map_option (\<lambda>d. d\<lparr>status := v\<rparr>) (find_one col mid)"
  by (induction col) (auto simp: find_one_Cons find_one_Nil)

lemma find_one_update_one_status_other:
  "mid' \<noteq> mid \<Longrightarrow> find_one (fst (update_one_status col mid v)) mid' = find_one col mid'"
  by (induction col) (auto simp: find_one_Cons find_one_Nil)

lemma ids_update_one_status:
  "map meta_msg_id (fst (update_one_status col mid v)) = map meta_msg_id col"
  by (induction col) auto

lemma modified_count_pos_iff:
  "0 < snd (update_one_status col mid v) \<longleftrightarrow> (\<exists>d. find_one col mid = Some d \<and> status d \<noteq> v)"
  by (induction col) (auto simp: find_one_Cons find_one_Nil)

lemma find_one_insert_one:
  "find_one (insert_one col doc) mid =
     (case find_one col mid of Some d \<Rightarrow> Some d
      | None \<Rightarrow> if meta_msg_id doc = mid then Some doc else None)"
  by (induction col) (auto simp: find_one_Cons find_one_Nil insert_one_def)

lemma find_one_pending_Cons:
  "find_one_pending (p # ps) mid = (if pending_meta_msg_id p = mid then Some p else find_one_pending ps mid)"
  by (simp add: find_one_pending_def)

lemma find_one_pending_Nil: "find_one_pending [] mid = None"
  by (simp add: find_one_pending_def)

lemma find_one_pending_upsert:
  "\<exists>p. find_one_pending (upsert_pending ps mid v t) mid = Some p \<and> new_status p = v
       \<and> received_at p = t \<and> pending_meta_msg_id p = mid"
  by (induction ps) (auto simp: find_one_pending_Cons find_one_pending_Nil)

lemma find_one_pending_upsert_other:
  "mid' \<noteq> mid \<Longrightarrow> find_one_pending (upsert_pending ps mid v t) mid' = find_one_pending ps mid'"
  by (induction ps) (auto simp: find_one_pending_Cons find_one_pending_Nil)

lemma pending_count_upsert:
  "pending_count (upsert_pending ps mid v t) mid = max 1 (pending_count ps mid)"
  by (induction ps) (auto simp: pending_count_def)

lemma pending_count_upsert_other:
  "mid' \<noteq> mid \<Longrightarrow> pending_count (upsert_pending ps mid v t) mid' = pending_count ps mid'"
  by (induction ps) (auto simp: pending_count_def)

lemma pending_count_delete:
  "pending_count (delete_one_pending ps mid) mid = pending_count ps mid - 1"
  by (induction ps) (auto simp: pending_count_def)

lemma pending_count_delete_other:
  "mid' \<noteq> mid \<Longrightarrow> pending_count (delete_one_pending ps mid) mid' = pending_count ps mid'"
  by (induction ps) (auto simp: pending_count_def)

lemma find_one_pending_None_iff:
  "find_one_pending ps mid = None \<longleftrightarrow> pending_count ps mid = 0"
  by (induction ps) (auto simp: pending_count_def find_one_pending_Cons find_one_pending_Nil)

lemma delete_one_pending_absent:
  "find_one_pending ps mid = None \<Longrightarrow> delete_one_pending ps mid = ps"
  by (induction ps) (auto simp: find_one_pending_Cons find_one_pending_Nil split: if_splits)

section \<open>Facts about the steps of the batch processor\<close>

lemma apply_pending_None:
  "find_one_pending (pending_col d) mid = None \<Longrightarrow> apply_pending d mid = (d, [])"
  by (simp add: apply_pending_def)

lemma apply_pending_Some:
  "find_one_pending (pending_col d) mid = Some p \<Longrightarrow>
   apply_pending d mid =
     (d\<lparr>messages_col := fst (update_one_status (messages_col d) mid (new_status p)),
        pending_col := delete_one_pending (pending_col d) mid\<rparr>,
      [Applied (new_status p) mid])"
  by (simp add: apply_pending_def)

lemma pending_col_apply_pending:
  "pending_col (fst (apply_pending d mid)) = delete_one_pending (pending_col d) mid"
  by (cases "find_one_pending (pending_col d) mid")
     (simp_all add: apply_pending_None apply_pending_Some delete_one_pending_absent)

lemma find_one_apply_pending:
  "find_one (messages_col (fst (apply_pending d mid))) mid =
     (case find_one_pending (pending_col d) mid of
        None \<Rightarrow> find_one (messages_col d) mid
      | Some p \<Rightarrow> map_option (\<lambda>doc. doc\<lparr>status := new_status p\<rparr>) (find_one (messages_col d) mid))"
  by (cases "find_one_pending (pending_col d) mid")
     (simp_all add: apply_pending_None apply_pending_Some find_one_update_one_status)

lemma ids_apply_pending:
  "map meta_msg_id (messages_col (fst (apply_pending d mid))) = map meta_msg_id (messages_col d)"
  by (cases "find_one_pending (pending_col d) mid")
     (simp_all add: apply_pending_None apply_pending_Some ids_update_one_status)

lemma process_message_duplicate:
  assumes "truthy (py_get m ''meta_msg_id'' JNull)"
    and "find_one (messages_col d) (py_get m ''meta_msg_id'' JNull) = Some e"
  shows "process_message now m d =
           (fst (apply_pending d (py_get m ''meta_msg_id'' JNull)),
            SkipDuplicate (py_get m ''meta_msg_id'' JNull) # snd (apply_pending d (py_get m ''meta_msg_id'' JNull)),
            Skipped)"
  using assms by (simp add: process_message_def Let_def)

lemma process_message_new:
  assumes "truthy (py_get m ''meta_msg_id'' JNull)"
    and "find_one (messages_col d) (py_get m ''meta_msg_id'' JNull) = None"
  shows "process_message now m d =
           (fst (apply_pending (d\<lparr>messages_col := insert_one (messages_col d) (new_doc now m)\<rparr>)
                   (py_get m ''meta_msg_id'' JNull)),
            Inserted (py_get m ''meta_msg_id'' JNull) #
              snd (apply_pending (d\<lparr>messages_col := insert_one (messages_col d) (new_doc now m)\<rparr>)
                   (py_get m ''meta_msg_id'' JNull)),
            Processed)"
  using assms by (simp add: process_message_def Let_def)

lemma pending_col_process_message:
  assumes "truthy (py_get m ''meta_msg_id'' JNull)"
  shows "pending_col (fst (process_message now m d)) =
           delete_one_pending (pending_col d) (py_get m ''meta_msg_id'' JNull)"
proof (cases "find_one (messages_col d) (py_get m ''meta_msg_id'' JNull)")
  case None
  then show ?thesis
    using assms by (simp add: process_message_new pending_col_apply_pending)
next
  case (Some e)
  then show ?thesis
    using assms by (simp add: process_message_duplicate pending_col_apply_pending)
qed

lemma stored_status_process_message:
  assumes "truthy (py_get m ''meta_msg_id'' JNull)"
  shows "stored_status (fst (process_message now m d)) (py_get m ''meta_msg_id'' JNull) =
           Some (case find_one_pending (pending_col d) (py_get m ''meta_msg_id'' JNull) of
                   Some p \<Rightarrow> new_status p
                 | None \<Rightarrow>
                     (case find_one (messages_col d) (py_get m ''meta_msg_id'' JNull) of
                        Some e \<Rightarrow> status e
                      | None \<Rightarrow> py_get m ''status'' (JStr ''delivered'')))"
proof (cases "find_one (messages_col d) (py_get m ''meta_msg_id'' JNull)")
  case None
  then show ?thesis
    using assms
    by (simp add: process_message_new stored_status_def find_one_apply_pending
        find_one_insert_one new_doc_def split: option.splits)
next
  case (Some e)
  then show ?thesis
    using assms
    by (simp add: process_message_duplicate stored_status_def find_one_apply_pending
        split: option.splits)
qed

lemma process_status_updated:
  assumes "truthy (py_get s ''meta_msg_id'' JNull)"
    and "find_one (messages_col d) (py_get s ''meta_msg_id'' JNull) = Some e"
    and "status e \<noteq> py_get s ''status'' JNull"
  shows "process_status now s d =
           (d\<lparr>messages_col :=
                 fst (update_one_status (messages_col d) (py_get s ''meta_msg_id'' JNull)
                        (py_get s ''status'' JNull))\<rparr>,
            [Updated (py_get s ''meta_msg_id'' JNull) (py_get s ''status'' JNull)], Processed)"
  using assms by (simp add: process_status_def Let_def update_one_status_changed)

lemma process_status_buffered:
  assumes "truthy (py_get s ''meta_msg_id'' JNull)"
    and "find_one (messages_col d) (py_get s ''meta_msg_id'' JNull) = None \<or>
         (\<exists>e. find_one (messages_col d) (py_get s ''meta_msg_id'' JNull) = Some e \<and>
              status e = py_get s ''status'' JNull)"
  shows "process_status now s d =
           (d\<lparr>pending_col :=
                 upsert_pending (pending_col d) (py_get s ''meta_msg_id'' JNull)
                   (py_get s ''status'' JNull) (JStr now)\<rparr>,
            [Pending (py_get s ''status'' JNull) (py_get s ''meta_msg_id'' JNull)], Processed)"
  using assms
  by (auto simp: process_status_def Let_def update_one_status_absent update_one_status_same)

lemma stored_status_process_status:
  assumes "truthy (py_get s ''meta_msg_id'' JNull)"
  shows "stored_status (fst (process_status now s d)) (py_get s ''meta_msg_id'' JNull) =
     map_option (\<lambda>_. py_get s ''status'' JNull) (stored_status d (py_get s ''meta_msg_id'' JNull))"
  using assms
  by (simp add: process_status_def Let_def stored_status_def find_one_update_one_status
      option.map_comp comp_def)

lemma process_payload_message:
  "map_of m ''type'' = Some (JStr ''message'') \<Longrightarrow>
   process_payload now (JObj m) d = process_message now m d"
  by (simp add: process_payload_def)

lemma process_payload_status:
  "map_of s ''type'' = Some (JStr ''status'') \<Longrightarrow>
   process_payload now (JObj s) d = process_status now s d"
  by (simp add: process_payload_def)

section \<open>Facts about the server's handlers\<close>

lemma db_update_message_status_absent:
  "find_one col mid = None \<Longrightarrow> db_update_message_status col mid new = (col, Inr 0)"
  by (simp add: db_update_message_status_def)

lemma db_update_message_status_rejected:
  "find_one col mid = Some e \<Longrightarrow> valid_next (status e) = Inr allowed \<Longrightarrow> new \<notin> set allowed \<Longrightarrow>
   db_update_message_status col mid new = (col, Inl (InvalidStatusTransition (status e) new))"
  by (simp add: db_update_message_status_def)

lemma event_type_status: "event_type (JStr ''status'') = Inr ''status''"
  by code_simp

lemma event_type_message: "event_type (JStr ''message'') = Inr ''message''"
  by code_simp

lemma process_webhook_payload_status:
  assumes "event_type (py_get payload ''type'' (JStr '''')) = Inr ''status''"
    and "map_of payload ''meta_msg_id'' = Some mid"
    and "map_of payload ''status'' = Some new"
  shows "process_webhook_payload now payload col =
           (case db_update_message_status col mid new of
              (col', Inl h) \<Rightarrow> (col', Inl (reraise h))
            | (col', Inr modified_count) \<Rightarrow>
                if modified_count \<noteq> 0 then (col', Inr StatusUpdated)
                else (col', Inl MessageNotFound))"
  using assms
  by (simp add: process_webhook_payload_def webhook_status_def split: prod.splits sum.splits)

lemma process_webhook_payload_message:
  assumes "event_type (py_get payload ''type'' (JStr '''')) = Inr ''message''"
    and "map_of payload ''wa_id'' = Some w"
    and "map_of payload ''text'' = Some t"
    and "map_of payload ''meta_msg_id'' = Some mid"
  shows "process_webhook_payload now payload col =
           (case db_insert_message now
                   \<lparr>wa_id = w, text_field = t, meta_msg_id = mid, direction = JStr ''inbound'',
                    status = py_get payload ''status'' (JStr ''delivered''), timestamp = JNull\<rparr> col of
              (col', Inl h) \<Rightarrow> (col', Inl (reraise h))
            | (col', Inr None) \<Rightarrow> (col', Inl (HTTPException 500 ''Internal server error''))
            | (col', Inr (Some saved)) \<Rightarrow> (col', Inr MessageReceived))"
  using assms
  by (simp add: process_webhook_payload_def webhook_message_def Let_def
      split: prod.splits sum.splits option.splits)

lemma find_one_None_iff: "find_one col mid = None \<longleftrightarrow> (\<forall>e \<in> set col. meta_msg_id e \<noteq> mid)"
  by (induction col) (auto simp: find_one_Cons find_one_Nil)

lemma message_count_zero_iff: "message_count col mid = 0 \<longleftrightarrow> find_one col mid = None"
  by (induction col) (auto simp: find_one_Cons find_one_Nil message_count_def)

lemma message_count_append:
  "message_count (col @ [doc]) mid = message_count col mid + (if meta_msg_id doc = mid then 1 else 0)"
  by (simp add: message_count_def)

lemma message_count_map:
  "message_count col mid = length (filter (\<lambda>i. i = mid) (map meta_msg_id col))"
  by (induction col) (simp_all add: message_count_def)

lemma message_count_ids:
  "map meta_msg_id col = map meta_msg_id col' \<Longrightarrow> message_count col mid = message_count col' mid"
  by (simp add: message_count_map)

lemma db_insert_message_new:
  assumes "find_one col (meta_msg_id md) = None"
  shows "db_insert_message now md col =
           (col @ [md\<lparr>timestamp := JStr now\<rparr>], Inr (Some (md\<lparr>timestamp := JStr now\<rparr>)))"
proof -
  have "\<not> (\<exists>e \<in> set col. meta_msg_id e = meta_msg_id md)"
    using assms by (simp add: find_one_None_iff)
  moreover have "find_one (col @ [md\<lparr>timestamp := JStr now\<rparr>]) (meta_msg_id md) =
      Some (md\<lparr>timestamp := JStr now\<rparr>)"
    using assms find_one_insert_one [of col "md\<lparr>timestamp := JStr now\<rparr>" "meta_msg_id md"]
    by (simp add: insert_one_def)
  ultimately show ?thesis
    by (simp add: db_insert_message_def insert_one_unique_def Let_def)
qed

lemma db_insert_message_duplicate:
  assumes "find_one col (meta_msg_id md) = Some e"
  shows "db_insert_message now md col = (col, Inl (HTTPException 500 ''Database insert error''))"
proof -
  have "\<exists>e \<in> set col. meta_msg_id e = meta_msg_id md"
    using assms find_one_None_iff [of col "meta_msg_id md"] by auto
  then show ?thesis
    by (simp add: db_insert_message_def insert_one_unique_def Let_def)
qed

section \<open>Facts about the normalizer and the loop\<close>

lemma bindE_Inl: "bindE (Inl e) f = Inl e"
  by (simp add: bindE_def)

lemma bindE_Inr: "bindE (Inr a) f = f a"
  by (simp add: bindE_def)

lemma bindE_eq_Inr:
  "bindE m f = Inr b \<longleftrightarrow> (\<exists>a. m = Inr a \<and> f a = Inr b)"
  by (cases m) (simp_all add: bindE_def)

text \<open>The failures the accesses \<^verbatim>\<open>meta.get(...)[0]\<close> and \<^verbatim>\<open>entry.get(...)[0]\<close> can meet.\<close>

lemma envelope_value_not_dict:
  "\<not> is_dict meta \<Longrightarrow> envelope_value meta = Inl AttributeError"
  by (cases meta) (simp_all add: envelope_value_def bindE_Inl)

lemma envelope_value_no_entry:
  "py_get mk ''entry'' (JList []) = JList [] \<Longrightarrow> envelope_value (JObj mk) = Inl IndexError"
  by (simp add: envelope_value_def bindE_Inl bindE_Inr)

lemma envelope_value_entry_not_dict:
  "py_get mk ''entry'' (JList []) = JList (entry # es) \<Longrightarrow> \<not> is_dict entry \<Longrightarrow>
   envelope_value (JObj mk) = Inl AttributeError"
  by (cases entry) (simp_all add: envelope_value_def bindE_Inl bindE_Inr)

lemma envelope_value_no_changes:
  "py_get mk ''entry'' (JList []) = JList (JObj ek # es) \<Longrightarrow>
   py_get ek ''changes'' (JList []) = JList [] \<Longrightarrow>
   envelope_value (JObj mk) = Inl IndexError"
  by (simp add: envelope_value_def bindE_Inl bindE_Inr)

lemma envelope_value_change_not_dict:
  "py_get mk ''entry'' (JList []) = JList (JObj ek # es) \<Longrightarrow>
   py_get ek ''changes'' (JList []) = JList (change # cs) \<Longrightarrow> \<not> is_dict change \<Longrightarrow>
   envelope_value (JObj mk) = Inl AttributeError"
  by (cases change) (simp_all add: envelope_value_def bindE_Inl bindE_Inr)

lemma envelope_value_found:
  "py_get mk ''entry'' (JList []) = JList (JObj ek # es) \<Longrightarrow>
   py_get ek ''changes'' (JList []) = JList (JObj ck # cs) \<Longrightarrow>
   envelope_value (JObj mk) = Inr (py_get ck ''value'' (JObj []))"
  by (simp add: envelope_value_def bindE_Inr)

text \<open>The path \<^verbatim>\<open>entry[0].changes[0].value\<close> is found in exactly one way; otherwise the
  accesses raise.\<close>

lemma envelope_value_Inr_iff:
  "envelope_value meta = Inr val \<longleftrightarrow>
     (\<exists>mk ek ck. meta = JObj mk
        \<and> subscript0 (py_get mk ''entry'' (JList [])) = Inr (JObj ek)
        \<and> subscript0 (py_get ek ''changes'' (JList [])) = Inr (JObj ck)
        \<and> val = py_get ck ''value'' (JObj []))"
proof
  assume found: "envelope_value meta = Inr val"
  then obtain mk where meta: "meta = JObj mk"
    using envelope_value_not_dict [of meta] by (cases meta) simp_all
  from found meta obtain entry where entry: "subscript0 (py_get mk ''entry'' (JList [])) = Inr entry"
      and rest: "bindE (dict_get entry ''changes'' (JList [])) (\<lambda>changes.
                 bindE (subscript0 changes) (\<lambda>change. dict_get change ''value'' (JObj []))) = Inr val"
    by (auto simp: envelope_value_def bindE_eq_Inr)
  from rest obtain ek where ek: "entry = JObj ek"
    by (cases entry) (simp_all add: bindE_Inl)
  from rest ek obtain change where change: "subscript0 (py_get ek ''changes'' (JList [])) = Inr change"
      and last: "dict_get change ''value'' (JObj []) = Inr val"
    by (auto simp: bindE_eq_Inr)
  from last obtain ck where ck: "change = JObj ck"
    by (cases change) simp_all
  show "\<exists>mk ek ck. meta = JObj mk
        \<and> subscript0 (py_get mk ''entry'' (JList [])) = Inr (JObj ek)
        \<and> subscript0 (py_get ek ''changes'' (JList [])) = Inr (JObj ck)
        \<and> val = py_get ck ''value'' (JObj [])"
    using meta entry ek change ck last by auto
next
  assume "\<exists>mk ek ck. meta = JObj mk
        \<and> subscript0 (py_get mk ''entry'' (JList [])) = Inr (JObj ek)
        \<and> subscript0 (py_get ek ''changes'' (JList [])) = Inr (JObj ck)
        \<and> val = py_get ck ''value'' (JObj [])"
  then show "envelope_value meta = Inr val"
    by (auto simp: envelope_value_def bindE_Inr)
qed

lemma parse_envelope_raises:
  "envelope_value meta = Inl e \<Longrightarrow> parse_envelope to_iso now meta = Inl e"
  by (simp add: parse_envelope_def bindE_Inl)

lemma parse_envelope_value_not_dict:
  "envelope_value meta = Inr val \<Longrightarrow> \<not> is_dict val \<Longrightarrow>
   parse_envelope to_iso now meta = Inl AttributeError"
  by (cases val) (simp_all add: parse_envelope_def bindE_Inl bindE_Inr)

text \<open>
  An empty \<^verbatim>\<open>messages\<close> array raises nothing: the branch is not taken, and without
  statuses the try block ends without an event.
\<close>

lemma parse_envelope_nothing:
  "envelope_value meta = Inr (JObj vk) \<Longrightarrow> \<not> truthy (py_get vk ''messages'' JNull) \<Longrightarrow>
   \<not> truthy (py_get vk ''statuses'' JNull) \<Longrightarrow>
   parse_envelope to_iso now meta = Inr None"
  by (simp add: parse_envelope_def bindE_Inr)

lemma envelope_value_truthy:
  assumes "envelope_value meta = Inr val"
  shows "truthy meta"
proof (cases meta)
  case (JObj mk)
  have "mk \<noteq> []"
  proof
    assume "mk = []"
    then have "envelope_value meta = Inl IndexError"
      using JObj by (simp add: envelope_value_no_entry py_get_def)
    then show False
      using assms by simp
  qed
  then show ?thesis
    using JObj by simp
qed (use assms envelope_value_not_dict [of meta] in simp_all)

lemma message_text_dict: "\<exists>txt. message_text (JObj mk) = Inr txt"
proof (cases "map_of mk ''text''")
  case None
  then show ?thesis
    by (cases "map_of mk ''message''"; cases "py_get mk ''message'' JNull")
       (auto simp: message_text_def bindE_Inr py_get_def)
next
  case (Some t)
  then show ?thesis
    by (cases t; cases "map_of mk ''message''"; cases "py_get mk ''message'' JNull")
       (auto simp: message_text_def bindE_Inr py_get_def)
qed

lemma normalize_not_canonical:
  assumes "py_get kvs ''type'' JNull \<notin> {JStr ''message'', JStr ''status''}"
  shows "normalize_webhook_payload to_iso now (JObj kvs) =
           (if truthy (envelope_meta kvs) then
              (case parse_envelope to_iso now (envelope_meta kvs) of Inl e \<Rightarrow> None | Inr r \<Rightarrow> r)
            else None)"
  using assms by (simp add: normalize_webhook_payload_def Let_def)

lemma process_files_append:
  "process_files to_iso r (fs @ gs) = process_files to_iso (process_files to_iso r fs) gs"
  by (simp add: process_files_def)

lemma process_files_Cons:
  "process_files to_iso r (f # fs) = process_files to_iso (process_file to_iso r f) fs"
  by (simp add: process_files_def)

lemma process_file_unrecognized:
  "normalize_webhook_payload to_iso now raw = None \<Longrightarrow>
   process_file to_iso r (now, Some raw) =
     count Skipped (r\<lparr>printed := printed r @ [SkipUnknownStructure]\<rparr>)"
  by (simp add: process_file_def)

lemma counters_count:
  "processed (count t r) + skipped (count t r) + errors (count t r) =
     processed r + skipped r + errors r + 1"
  by (cases t) (simp_all add: count_def)

lemma counters_process_file:
  "processed (process_file to_iso r f) + skipped (process_file to_iso r f) + errors (process_file to_iso r f) =
     processed r + skipped r + errors r + 1"
  by (simp add: process_file_def counters_count split: option.splits prod.splits)

lemma counters_process_files:
  "processed (process_files to_iso r fs) + skipped (process_files to_iso r fs)
     + errors (process_files to_iso r fs) =
   processed r + skipped r + errors r + length fs"
proof (induction fs arbitrary: r)
  case Nil
  show ?case by (simp add: process_files_def)
next
  case (Cons f fs)
  show ?case
    using Cons.IH [of "process_file to_iso r f"] counters_process_file [of to_iso r f]
    by (simp add: process_files_Cons)
qed

section \<open>At most one record and one pending entry for an id\<close>

text \<open>
  The batch processor inserts a message only after the lookup found none, and writes
  pending entries only through the upsert. A store in which no id has two message
  records, or two pending entries, therefore stays so, file after file.
\<close>

lemma message_count_process_payload:
  assumes "\<forall>i. message_count (messages_col d) i \<le> 1"
  shows "message_count (messages_col (fst (process_payload now payload d))) i \<le> 1"
proof -
  have status_case: "message_count (messages_col (fst (process_status now s d))) i \<le> 1" for s
  proof -
    have "map meta_msg_id (messages_col (fst (process_status now s d))) = map meta_msg_id (messages_col d)"
      by (simp add: process_status_def Let_def ids_update_one_status)
    then have "message_count (messages_col (fst (process_status now s d))) i = message_count (messages_col d) i"
      by (rule message_count_ids)
    then show ?thesis
      using assms by simp
  qed
  have message_case: "message_count (messages_col (fst (process_message now m d))) i \<le> 1" for m
  proof (cases "truthy (py_get m ''meta_msg_id'' JNull)")
    case False
    then show ?thesis
      using assms by (simp add: process_message_def)
  next
    case True
    show ?thesis
    proof (cases "find_one (messages_col d) (py_get m ''meta_msg_id'' JNull)")
      case None
      have "map meta_msg_id (messages_col (fst (process_message now m d))) =
          map meta_msg_id (messages_col d @ [new_doc now m])"
        using True None by (simp add: process_message_new ids_apply_pending insert_one_def)
      then have "message_count (messages_col (fst (process_message now m d))) i =
          message_count (messages_col d @ [new_doc now m]) i"
        by (rule message_count_ids)
      moreover have "message_count (messages_col d) (py_get m ''meta_msg_id'' JNull) = 0"
        using None by (simp add: message_count_zero_iff)
      ultimately show ?thesis
        using assms [rule_format, of i] by (auto simp: message_count_append new_doc_def)
    next
      case (Some e)
      have "map meta_msg_id (messages_col (fst (process_message now m d))) = map meta_msg_id (messages_col d)"
        using True Some by (simp add: process_message_duplicate ids_apply_pending)
      then have "message_count (messages_col (fst (process_message now m d))) i =
          message_count (messages_col d) i"
        by (rule message_count_ids)
      then show ?thesis
        using assms by simp
    qed
  qed
  show ?thesis
    using assms status_case message_case
    by (auto simp: process_payload_def split: sum.splits json.splits)
qed

lemma pending_count_process_payload:
  assumes "\<forall>i. pending_count (pending_col d) i \<le> 1"
  shows "pending_count (pending_col (fst (process_payload now payload d))) i \<le> 1"
proof -
  have upsert: "pending_count (upsert_pending (pending_col d) k v t) i \<le> 1" for k v t
    using assms [rule_format, of i] assms [rule_format, of k]
    by (cases "i = k") (simp_all add: pending_count_upsert pending_count_upsert_other)
  have delete: "pending_count (delete_one_pending (pending_col d) k) i \<le> 1" for k
    using assms [rule_format, of i] assms [rule_format, of k]
    by (cases "i = k") (simp_all add: pending_count_delete pending_count_delete_other)
  have status_case: "pending_count (pending_col (fst (process_status now s d))) i \<le> 1" for s
    using assms upsert by (simp add: process_status_def Let_def)
  have message_case: "pending_count (pending_col (fst (process_message now m d))) i \<le> 1" for m
  proof (cases "truthy (py_get m ''meta_msg_id'' JNull)")
    case False
    then show ?thesis
      using assms by (simp add: process_message_def)
  next
    case True
    then show ?thesis
      using delete by (simp add: pending_col_process_message)
  qed
  show ?thesis
    using assms status_case message_case
    by (auto simp: process_payload_def split: sum.splits json.splits)
qed

lemma store_count: "store (count t r) = store r"
  by (cases t) (simp_all add: count_def)

lemma store_process_file:
  "store (process_file to_iso r f) =
     (case snd f of
        None \<Rightarrow> store r
      | Some raw \<Rightarrow>
          (case normalize_webhook_payload to_iso (fst f) raw of
             None \<Rightarrow> store r
           | Some payload \<Rightarrow>
               if \<not> truthy payload then store r
               else fst (process_payload (fst f) payload (store r))))"
  by (simp add: process_file_def store_count split: option.splits prod.splits)

lemma unique_ids_process_files:
  assumes "\<forall>i. message_count (messages_col (store r)) i \<le> 1"
    and "\<forall>i. pending_count (pending_col (store r)) i \<le> 1"
  shows "message_count (messages_col (store (process_files to_iso r fs))) i \<le> 1
       \<and> pending_count (pending_col (store (process_files to_iso r fs))) i \<le> 1"
  using assms
proof (induction fs arbitrary: r i)
  case Nil
  then show ?case by (simp add: process_files_def)
next
  case (Cons f fs)
  have "\<forall>i. message_count (messages_col (store (process_file to_iso r f))) i \<le> 1"
    using Cons.prems(1) message_count_process_payload
    by (simp add: store_process_file split: option.splits)
  moreover have "\<forall>i. pending_count (pending_col (store (process_file to_iso r f))) i \<le> 1"
    using Cons.prems(2) pending_count_process_payload
    by (simp add: store_process_file split: option.splits)
  ultimately show ?case
    using Cons.IH [of "process_file to_iso r f" i] by (simp add: process_files_Cons)
qed

section \<open>Monotonicity: \<^verbatim>\<open>read\<close> is final on the server\<close>

text \<open>
  Claim C1, as amended. On the server, every status update goes through
  \<^verbatim>\<open>db_update_message_status\<close>. Once the stored status of a message is \<^verbatim>\<open>read\<close>,
  that function refuses any requested status with InvalidStatusTransition and writes
  nothing, so a StatusEvent posted to the webhook for that id, whatever status it
  requests, leaves the collection as it is and the stored status at \<^verbatim>\<open>read\<close>.
\<close>

theorem read_is_final_on_server:
  assumes seen: "find_one col mid = Some e"
    and final: "status e = JStr ''read''"
    and ty: "event_type (py_get payload ''type'' (JStr '''')) = Inr ''status''"
    and mid: "map_of payload ''meta_msg_id'' = Some mid"
    and new: "map_of payload ''status'' = Some new"
  shows "db_update_message_status col mid new = (col, Inl (InvalidStatusTransition (JStr ''read'') new))
       \<and> process_webhook_payload now payload col = (col, Inl (InvalidStatusTransition (JStr ''read'') new))
       \<and> map_option status (find_one (fst (process_webhook_payload now payload col)) mid)
           = Some (JStr ''read'')"
proof -
  have "valid_next (status e) = Inr []"
    by (simp add: final VALID_STATUS_TRANSITIONS_def)
  then have refused: "db_update_message_status col mid new =
      (col, Inl (InvalidStatusTransition (JStr ''read'') new))"
    using db_update_message_status_rejected [OF seen, of "[]" new] by (simp add: final)
  then have "process_webhook_payload now payload col =
      (col, Inl (InvalidStatusTransition (JStr ''read'') new))"
    by (simp add: process_webhook_payload_status [OF ty mid new])
  then show ?thesis
    using refused seen final by simp
qed

theorem read_is_final_on_server_witness:
  "let e = \<lparr>wa_id = JStr ''c1'', text_field = JStr ''hi'', meta_msg_id = JStr ''m1'',
             direction = JStr ''inbound'', status = JStr ''read'', timestamp = JStr ''t0''\<rparr>;
       payload = [(''type'', JStr ''status''), (''meta_msg_id'', JStr ''m1''), (''status'', JStr ''delivered'')]
   in find_one [e] (JStr ''m1'') = Some e
    \<and> event_type (py_get payload ''type'' (JStr '''')) = Inr ''status''
    \<and> db_update_message_status [e] (JStr ''m1'') (JStr ''delivered'')
         = ([e], Inl (InvalidStatusTransition (JStr ''read'') (JStr ''delivered'')))
    \<and> process_webhook_payload ''t1'' payload [e]
         = ([e], Inl (InvalidStatusTransition (JStr ''read'') (JStr ''delivered'')))"
  using read_is_final_on_server
    [of "[\<lparr>wa_id = JStr ''c1'', text_field = JStr ''hi'', meta_msg_id = JStr ''m1'',
             direction = JStr ''inbound'', status = JStr ''read'', timestamp = JStr ''t0''\<rparr>]"
        "JStr ''m1''"
        "\<lparr>wa_id = JStr ''c1'', text_field = JStr ''hi'', meta_msg_id = JStr ''m1'',
             direction = JStr ''inbound'', status = JStr ''read'', timestamp = JStr ''t0''\<rparr>"
        "[(''type'', JStr ''status''), (''meta_msg_id'', JStr ''m1''), (''status'', JStr ''delivered'')]"
        "JStr ''delivered''" "''t1''"]
  by (simp add: find_one_def Let_def py_get_def event_type_status del: event_type.simps)

text \<open>
  The claim as it was stated, for every ingestion path, fails in the batch processor,
  which sets the requested status without looking at the stored one: a record at
  \<^verbatim>\<open>read\<close> that receives StatusEvent(delivered) is stored with \<^verbatim>\<open>delivered\<close>.
\<close>

theorem read_is_final_counterexample:
  "stored_status
     \<lparr>messages_col =
        [\<lparr>wa_id = JStr ''c1'', text_field = JStr ''hi'', meta_msg_id = JStr ''m1'',
          direction = JStr ''inbound'', status = JStr ''read'', timestamp = JStr ''t0''\<rparr>],
      pending_col = []\<rparr>
     (JStr ''m1'') = Some (JStr ''read'')
   \<and> process_payload ''t1''
        (JObj [(''type'', JStr ''status''), (''meta_msg_id'', JStr ''m1''), (''status'', JStr ''delivered'')])
        \<lparr>messages_col =
           [\<lparr>wa_id = JStr ''c1'', text_field = JStr ''hi'', meta_msg_id = JStr ''m1'',
             direction = JStr ''inbound'', status = JStr ''read'', timestamp = JStr ''t0''\<rparr>],
         pending_col = []\<rparr>
      = (\<lparr>messages_col =
            [\<lparr>wa_id = JStr ''c1'', text_field = JStr ''hi'', meta_msg_id = JStr ''m1'',
              direction = JStr ''inbound'', status = JStr ''delivered'', timestamp = JStr ''t0''\<rparr>],
          pending_col = []\<rparr>,
         [Updated (JStr ''m1'') (JStr ''delivered'')], Processed)"
  by code_simp

section \<open>An illegal transition on the server\<close>

text \<open>
  Claim C2, as amended. When a StatusEvent posted to the webhook names an existing
  message record and requests a status that is not among the legal next states of the
  stored status (a regression, a repeat of the current status, or any request at
  \<^verbatim>\<open>read\<close>), the handler leaves the collection unchanged and raises
  InvalidStatusTransition with the stored and the requested status, which the caller
  receives as HTTP 400.
\<close>

theorem illegal_transition_raises_on_server:
  assumes ty: "event_type (py_get payload ''type'' (JStr '''')) = Inr ''status''"
    and mid: "map_of payload ''meta_msg_id'' = Some mid"
    and new: "map_of payload ''status'' = Some new"
    and seen: "find_one col mid = Some e"
    and table: "valid_next (status e) = Inr allowed"
    and illegal: "new \<notin> set allowed"
  shows "process_webhook_payload now payload col = (col, Inl (InvalidStatusTransition (status e) new))
       \<and> status_code (InvalidStatusTransition (status e) new) = Some 400"
  using db_update_message_status_rejected [OF seen table illegal]
  by (simp add: process_webhook_payload_status [OF ty mid new])

theorem illegal_transition_raises_on_server_witness:
  "let e = \<lparr>wa_id = JStr ''c1'', text_field = JStr ''hi'', meta_msg_id = JStr ''m1'',
             direction = JStr ''inbound'', status = JStr ''delivered'', timestamp = JStr ''t0''\<rparr>;
       payload = [(''type'', JStr ''status''), (''meta_msg_id'', JStr ''m1''), (''status'', JStr ''delivered'')]
   in find_one [e] (JStr ''m1'') = Some e
    \<and> valid_next (status e) = Inr [JStr ''read'']
    \<and> JStr ''delivered'' \<notin> set [JStr ''read'']
    \<and> process_webhook_payload ''t1'' payload [e]
         = ([e], Inl (InvalidStatusTransition (JStr ''delivered'') (JStr ''delivered'')))"
  using illegal_transition_raises_on_server
    [of "[(''type'', JStr ''status''), (''meta_msg_id'', JStr ''m1''), (''status'', JStr ''delivered'')]"
        "JStr ''m1''" "JStr ''delivered''"
        "[\<lparr>wa_id = JStr ''c1'', text_field = JStr ''hi'', meta_msg_id = JStr ''m1'',
             direction = JStr ''inbound'', status = JStr ''delivered'', timestamp = JStr ''t0''\<rparr>]"
        "\<lparr>wa_id = JStr ''c1'', text_field = JStr ''hi'', meta_msg_id = JStr ''m1'',
             direction = JStr ''inbound'', status = JStr ''delivered'', timestamp = JStr ''t0''\<rparr>"
        "[JStr ''read'']" "''t1''"]
  by (simp add: find_one_def Let_def py_get_def event_type_status VALID_STATUS_TRANSITIONS_def
      del: event_type.simps)

text \<open>
  The claim as it was stated fails on both paths at a message stored with
  \<^verbatim>\<open>delivered\<close> that receives StatusEvent(sent): the server surfaces an error to the
  caller (InvalidStatusTransition, HTTP 400), and the batch processor stores \<^verbatim>\<open>sent\<close>.
\<close>

theorem illegal_transition_ignored_counterexample:
  "process_webhook_payload ''t1''
     [(''type'', JStr ''status''), (''meta_msg_id'', JStr ''m1''), (''status'', JStr ''sent'')]
     [\<lparr>wa_id = JStr ''c1'', text_field = JStr ''hi'', meta_msg_id = JStr ''m1'',
       direction = JStr ''inbound'', status = JStr ''delivered'', timestamp = JStr ''t0''\<rparr>]
     = ([\<lparr>wa_id = JStr ''c1'', text_field = JStr ''hi'', meta_msg_id = JStr ''m1'',
          direction = JStr ''inbound'', status = JStr ''delivered'', timestamp = JStr ''t0''\<rparr>],
        Inl (InvalidStatusTransition (JStr ''delivered'') (JStr ''sent'')))
   \<and> status_code (InvalidStatusTransition (JStr ''delivered'') (JStr ''sent'')) = Some 400
   \<and> process_payload ''t1''
        (JObj [(''type'', JStr ''status''), (''meta_msg_id'', JStr ''m1''), (''status'', JStr ''sent'')])
        \<lparr>messages_col =
           [\<lparr>wa_id = JStr ''c1'', text_field = JStr ''hi'', meta_msg_id = JStr ''m1'',
             direction = JStr ''inbound'', status = JStr ''delivered'', timestamp = JStr ''t0''\<rparr>],
         pending_col = []\<rparr>
      = (\<lparr>messages_col =
            [\<lparr>wa_id = JStr ''c1'', text_field = JStr ''hi'', meta_msg_id = JStr ''m1'',
              direction = JStr ''inbound'', status = JStr ''sent'', timestamp = JStr ''t0''\<rparr>],
          pending_col = []\<rparr>,
         [Updated (JStr ''m1'') (JStr ''sent'')], Processed)"
  by code_simp

section \<open>Ingesting the same message twice\<close>

lemma message_count_process_message:
  assumes "truthy (py_get m ''meta_msg_id'' JNull)"
  shows "message_count (messages_col (fst (process_message now m d))) (py_get m ''meta_msg_id'' JNull) =
           (if find_one (messages_col d) (py_get m ''meta_msg_id'' JNull) = None then 1
            else message_count (messages_col d) (py_get m ''meta_msg_id'' JNull))"
proof (cases "find_one (messages_col d) (py_get m ''meta_msg_id'' JNull)")
  case None
  have "map meta_msg_id (messages_col (fst (process_message now m d))) =
      map meta_msg_id (messages_col d @ [new_doc now m])"
    using assms None by (simp add: process_message_new ids_apply_pending insert_one_def)
  then have "message_count (messages_col (fst (process_message now m d))) (py_get m ''meta_msg_id'' JNull) =
      message_count (messages_col d @ [new_doc now m]) (py_get m ''meta_msg_id'' JNull)"
    by (rule message_count_ids)
  also have "\<dots> = 1"
    using None by (simp add: message_count_append new_doc_def message_count_zero_iff)
  finally show ?thesis
    using None by simp
next
  case (Some e)
  have "map meta_msg_id (messages_col (fst (process_message now m d))) = map meta_msg_id (messages_col d)"
    using assms Some by (simp add: process_message_duplicate ids_apply_pending)
  then have "message_count (messages_col (fst (process_message now m d))) (py_get m ''meta_msg_id'' JNull) =
      message_count (messages_col d) (py_get m ''meta_msg_id'' JNull)"
    by (rule message_count_ids)
  then show ?thesis
    using Some by simp
qed

text \<open>
  Claim C3, as amended. Let a MessageEvent carry an id that has no message record.
  In the batch processor, ingesting it twice leaves exactly one record for the id, and
  the second ingest is the duplicate skip: the lookup before the insertion finds the
  record, so no insertion is tried. On the server there is no lookup: the second
  ingest runs into the unique index on \<^verbatim>\<open>meta_msg_id\<close>, the collection keeps its one
  record for the id, and the violation reaches the caller as the generic
  \<^verbatim>\<open>HTTPException(500, "Database insert error")\<close>.
\<close>

theorem same_message_twice:
  assumes x: "x \<noteq> []"
    and m: "map_of m ''type'' = Some (JStr ''message'')" "map_of m ''meta_msg_id'' = Some (JStr x)"
           "map_of m ''wa_id'' = Some w" "map_of m ''text'' = Some t"
    and unseen: "find_one (messages_col d) (JStr x) = None"
  shows "let r1 = process_payload t1 (JObj m) d;
             r2 = process_payload t2 (JObj m) (fst r1);
             s1 = process_webhook_payload t1 m (messages_col d);
             s2 = process_webhook_payload t2 m (fst s1)
         in message_count (messages_col (fst r1)) (JStr x) = 1
          \<and> message_count (messages_col (fst r2)) (JStr x) = 1
          \<and> (\<exists>rest. snd r2 = (SkipDuplicate (JStr x) # rest, Skipped))
          \<and> snd s1 = Inr MessageReceived
          \<and> message_count (fst s1) (JStr x) = 1
          \<and> s2 = (fst s1, Inl (HTTPException 500 ''Database insert error''))"
proof -
  have mid_m: "py_get m ''meta_msg_id'' JNull = JStr x"
    using m by (simp add: py_get_Some)
  have tm: "truthy (py_get m ''meta_msg_id'' JNull)"
    using x by (simp add: mid_m)
  define d1 where "d1 = fst (process_message t1 m d)"
  have one: "message_count (messages_col d1) (JStr x) = 1"
    using message_count_process_message [OF tm, of t1 d] unseen by (simp add: mid_m d1_def)
  then obtain e where e: "find_one (messages_col d1) (JStr x) = Some e"
    using message_count_zero_iff [of "messages_col d1" "JStr x"] by fastforce
  have still: "message_count (messages_col (fst (process_message t2 m d1))) (JStr x) = 1"
    using message_count_process_message [OF tm, of t2 d1] e one by (simp add: mid_m)
  have dup: "\<exists>rest. snd (process_message t2 m d1) = (SkipDuplicate (JStr x) # rest, Skipped)"
    using process_message_duplicate [OF tm, of d1 e t2] e by (simp add: mid_m)
  \<comment> \<open>the server\<close>
  have ty: "event_type (py_get m ''type'' (JStr '''')) = Inr ''message''"
    using m by (simp add: py_get_Some event_type_message del: event_type.simps)
  define md where "md = \<lparr>wa_id = w, text_field = t, meta_msg_id = JStr x, direction = JStr ''inbound'',
      status = py_get m ''status'' (JStr ''delivered''), timestamp = JNull\<rparr>"
  define col1 where "col1 = messages_col d @ [md\<lparr>timestamp := JStr t1\<rparr>]"
  have s1: "process_webhook_payload t1 m (messages_col d) = (col1, Inr MessageReceived)"
    using db_insert_message_new [of "messages_col d" md t1] unseen
    by (simp add: process_webhook_payload_message [OF ty m(3) m(4) m(2)] md_def col1_def)
  have one': "message_count col1 (JStr x) = 1"
    using unseen by (simp add: col1_def message_count_append md_def message_count_zero_iff)
  then obtain e' where e': "find_one col1 (JStr x) = Some e'"
    using message_count_zero_iff [of col1 "JStr x"] by fastforce
  have s2: "process_webhook_payload t2 m col1 = (col1, Inl (HTTPException 500 ''Database insert error''))"
    using db_insert_message_duplicate [of col1 md e' t2] e'
    by (simp add: process_webhook_payload_message [OF ty m(3) m(4) m(2)] md_def)
  show ?thesis
    using one still dup s1 one' s2
    by (simp add: Let_def process_payload_message m d1_def)
qed

theorem same_message_twice_witness:
  "let m = [(''type'', JStr ''message''), (''meta_msg_id'', JStr ''m1''), (''wa_id'', JStr ''c1''),
            (''text'', JStr ''hi'')];
       d = \<lparr>messages_col = [], pending_col = []\<rparr>;
       r1 = process_payload ''t1'' (JObj m) d;
       r2 = process_payload ''t2'' (JObj m) (fst r1);
       s1 = process_webhook_payload ''t1'' m (messages_col d);
       s2 = process_webhook_payload ''t2'' m (fst s1)
   in find_one (messages_col d) (JStr ''m1'') = None
    \<and> message_count (messages_col (fst r2)) (JStr ''m1'') = 1
    \<and> r2 = (fst r1, [SkipDuplicate (JStr ''m1'')], Skipped)
    \<and> message_count (fst s1) (JStr ''m1'') = 1
    \<and> s2 = (fst s1, Inl (HTTPException 500 ''Database insert error''))"
proof -
  have "process_payload ''t2''
      (JObj [(''type'', JStr ''message''), (''meta_msg_id'', JStr ''m1''), (''wa_id'', JStr ''c1''),
             (''text'', JStr ''hi'')])
      (fst (process_payload ''t1''
        (JObj [(''type'', JStr ''message''), (''meta_msg_id'', JStr ''m1''), (''wa_id'', JStr ''c1''),
               (''text'', JStr ''hi'')])
        \<lparr>messages_col = [], pending_col = []\<rparr>))
    = (fst (process_payload ''t1''
        (JObj [(''type'', JStr ''message''), (''meta_msg_id'', JStr ''m1''), (''wa_id'', JStr ''c1''),
               (''text'', JStr ''hi'')])
        \<lparr>messages_col = [], pending_col = []\<rparr>), [SkipDuplicate (JStr ''m1'')], Skipped)"
    by code_simp
  then show ?thesis
    using same_message_twice
      [of "''m1''"
          "[(''type'', JStr ''message''), (''meta_msg_id'', JStr ''m1''), (''wa_id'', JStr ''c1''),
            (''text'', JStr ''hi'')]"
          "JStr ''c1''" "JStr ''hi''" "\<lparr>messages_col = [], pending_col = []\<rparr>" "''t1''" "''t2''"]
    by (simp add: find_one_def Let_def)
qed

text \<open>
  The claim as it was stated fails on the server: the second POST of the same message
  is answered with the generic error of \<^verbatim>\<open>db_insert_message\<close>, not with a duplicate
  outcome.
\<close>

theorem same_message_twice_counterexample:
  "process_webhook_payload ''t2''
     [(''type'', JStr ''message''), (''meta_msg_id'', JStr ''m1''), (''wa_id'', JStr ''c1''),
      (''text'', JStr ''hi'')]
     (fst (process_webhook_payload ''t1''
        [(''type'', JStr ''message''), (''meta_msg_id'', JStr ''m1''), (''wa_id'', JStr ''c1''),
         (''text'', JStr ''hi'')]
        []))
   = ([\<lparr>wa_id = JStr ''c1'', text_field = JStr ''hi'', meta_msg_id = JStr ''m1'',
        direction = JStr ''inbound'', status = JStr ''delivered'', timestamp = JStr ''t1''\<rparr>],
      Inl (HTTPException 500 ''Database insert error''))"
  by code_simp

section \<open>Order independence of a status and its message (batch processor)\<close>

text \<open>
  Claim C4. For an id that has no message record yet, the batch processor ends with the
  stored status \<^verbatim>\<open>delivered\<close> whether it processes the StatusEvent(delivered) before
  the MessageEvent for that id or after it. Processed first, the status finds no
  record and is buffered, and the insertion of the message drains it; processed
  second, it overwrites whatever status the message was stored with.
\<close>

theorem order_independence:
  assumes x: "x \<noteq> []"
    and unseen: "find_one (messages_col d) (JStr x) = None"
    and m: "map_of m ''type'' = Some (JStr ''message'')" "map_of m ''meta_msg_id'' = Some (JStr x)"
    and s: "map_of s ''type'' = Some (JStr ''status'')" "map_of s ''meta_msg_id'' = Some (JStr x)"
           "map_of s ''status'' = Some (JStr ''delivered'')"
  shows "stored_status (fst (process_payload t2 (JObj m) (fst (process_payload t1 (JObj s) d)))) (JStr x)
           = Some (JStr ''delivered'')
       \<and> stored_status (fst (process_payload t2 (JObj s) (fst (process_payload t1 (JObj m) d)))) (JStr x)
           = Some (JStr ''delivered'')"
proof -
  have mid_m: "py_get m ''meta_msg_id'' JNull = JStr x"
    and mid_s: "py_get s ''meta_msg_id'' JNull = JStr x"
    and st_s: "py_get s ''status'' JNull = JStr ''delivered''"
    using m s by (simp_all add: py_get_Some)
  have tm: "truthy (py_get m ''meta_msg_id'' JNull)" and ts: "truthy (py_get s ''meta_msg_id'' JNull)"
    using x by (simp_all add: mid_m mid_s)
  \<comment> \<open>the status first: it is buffered, and the insertion drains it\<close>
  have buffered: "process_status t1 s d =
      (d\<lparr>pending_col := upsert_pending (pending_col d) (JStr x) (JStr ''delivered'') (JStr t1)\<rparr>,
       [Pending (JStr ''delivered'') (JStr x)], Processed)"
    using process_status_buffered [OF ts, of d t1] unseen by (simp add: mid_s st_s)
  obtain p where p: "find_one_pending (upsert_pending (pending_col d) (JStr x) (JStr ''delivered'') (JStr t1)) (JStr x) = Some p"
      "new_status p = JStr ''delivered''"
    using find_one_pending_upsert by blast
  have first: "stored_status (fst (process_message t2 m (fst (process_status t1 s d)))) (JStr x)
      = Some (JStr ''delivered'')"
    using stored_status_process_message [OF tm, of t2 "fst (process_status t1 s d)"] p
    by (simp add: mid_m buffered)
  \<comment> \<open>the message first: whatever status it is stored with, the update sets delivered\<close>
  have "\<exists>w. stored_status (fst (process_message t1 m d)) (JStr x) = Some w"
    using stored_status_process_message [OF tm, of t1 d] by (simp add: mid_m)
  then have second: "stored_status (fst (process_status t2 s (fst (process_message t1 m d)))) (JStr x)
      = Some (JStr ''delivered'')"
    using stored_status_process_status [OF ts, of t2 "fst (process_message t1 m d)"]
    by (auto simp: mid_s st_s)
  show ?thesis
    using first second by (simp add: process_payload_message process_payload_status m s)
qed

theorem order_independence_witness:
  "''m1'' \<noteq> []
   \<and> find_one (messages_col \<lparr>messages_col = [], pending_col = []\<rparr>) (JStr ''m1'') = None
   \<and> map_of [(''type'', JStr ''message''), (''meta_msg_id'', JStr ''m1''), (''status'', JStr ''sent'')] ''type''
       = Some (JStr ''message'')
   \<and> map_of [(''type'', JStr ''status''), (''meta_msg_id'', JStr ''m1''), (''status'', JStr ''delivered'')] ''status''
       = Some (JStr ''delivered'')
   \<and> stored_status
         (fst (process_payload ''t2''
            (JObj [(''type'', JStr ''message''), (''meta_msg_id'', JStr ''m1''), (''status'', JStr ''sent'')])
            (fst (process_payload ''t1''
               (JObj [(''type'', JStr ''status''), (''meta_msg_id'', JStr ''m1''), (''status'', JStr ''delivered'')])
               \<lparr>messages_col = [], pending_col = []\<rparr>))))
         (JStr ''m1'') = Some (JStr ''delivered'')
   \<and> stored_status
         (fst (process_payload ''t2''
            (JObj [(''type'', JStr ''status''), (''meta_msg_id'', JStr ''m1''), (''status'', JStr ''delivered'')])
            (fst (process_payload ''t1''
               (JObj [(''type'', JStr ''message''), (''meta_msg_id'', JStr ''m1''), (''status'', JStr ''sent'')])
               \<lparr>messages_col = [], pending_col = []\<rparr>))))
         (JStr ''m1'') = Some (JStr ''delivered'')"
  using order_independence
    [of "''m1''" "\<lparr>messages_col = [], pending_col = []\<rparr>"
        "[(''type'', JStr ''message''), (''meta_msg_id'', JStr ''m1''), (''status'', JStr ''sent'')]"
        "[(''type'', JStr ''status''), (''meta_msg_id'', JStr ''m1''), (''status'', JStr ''delivered'')]"
        "''t2''" "''t1''"]
  by (simp add: find_one_def)

section \<open>A status for a message not yet seen\<close>

text \<open>
  Claim C5, as amended. In the batch processor, a StatusEvent whose id matches no
  message record upserts a pending entry for that id with the requested status and
  the current time (an earlier pending entry for the id is overwritten, none is
  added), prints the pending line and counts the file as processed, not as an error;
  the messages are not touched. The server's webhook has no pending buffer: it
  answers such an event with MessageNotFound (HTTP 404) and stores nothing.
\<close>

theorem status_for_unseen_message:
  assumes x: "x \<noteq> []"
    and s: "map_of s ''type'' = Some (JStr ''status'')" "map_of s ''meta_msg_id'' = Some (JStr x)"
           "map_of s ''status'' = Some v"
    and unseen: "find_one (messages_col d) (JStr x) = None"
  shows "process_payload now (JObj s) d =
           (d\<lparr>pending_col := upsert_pending (pending_col d) (JStr x) v (JStr now)\<rparr>,
            [Pending v (JStr x)], Processed)
       \<and> (\<exists>p. find_one_pending (upsert_pending (pending_col d) (JStr x) v (JStr now)) (JStr x) = Some p
              \<and> new_status p = v \<and> received_at p = JStr now)
       \<and> pending_count (upsert_pending (pending_col d) (JStr x) v (JStr now)) (JStr x)
           = max 1 (pending_count (pending_col d) (JStr x))
       \<and> process_webhook_payload now s (messages_col d) = (messages_col d, Inl MessageNotFound)
       \<and> status_code MessageNotFound = Some 404"
proof -
  have mid_s: "py_get s ''meta_msg_id'' JNull = JStr x" and st_s: "py_get s ''status'' JNull = v"
    using s by (simp_all add: py_get_Some)
  have ts: "truthy (py_get s ''meta_msg_id'' JNull)"
    using x by (simp add: mid_s)
  have buffered: "process_status now s d =
      (d\<lparr>pending_col := upsert_pending (pending_col d) (JStr x) v (JStr now)\<rparr>,
       [Pending v (JStr x)], Processed)"
    using process_status_buffered [OF ts, of d now] unseen by (simp add: mid_s st_s)
  have entry: "\<exists>p. find_one_pending (upsert_pending (pending_col d) (JStr x) v (JStr now)) (JStr x) = Some p
      \<and> new_status p = v \<and> received_at p = JStr now"
    using find_one_pending_upsert [of "pending_col d" "JStr x" v "JStr now"] by blast
  have ty: "event_type (py_get s ''type'' (JStr '''')) = Inr ''status''"
    using s by (simp add: py_get_Some event_type_status del: event_type.simps)
  have server: "process_webhook_payload now s (messages_col d) = (messages_col d, Inl MessageNotFound)"
    using db_update_message_status_absent [OF unseen, of v]
    by (simp add: process_webhook_payload_status [OF ty s(2) s(3)])
  show ?thesis
    using buffered entry server
    by (simp add: process_payload_status s pending_count_upsert)
qed

theorem status_for_unseen_message_witness:
  "let s = [(''type'', JStr ''status''), (''meta_msg_id'', JStr ''m9''), (''status'', JStr ''read'')];
       d = \<lparr>messages_col = [],
             pending_col = [\<lparr>pending_meta_msg_id = JStr ''m9'', new_status = JStr ''delivered'',
                              received_at = JStr ''t0''\<rparr>]\<rparr>
   in find_one (messages_col d) (JStr ''m9'') = None
    \<and> process_payload ''t1'' (JObj s) d =
         (\<lparr>messages_col = [],
            pending_col = [\<lparr>pending_meta_msg_id = JStr ''m9'', new_status = JStr ''read'',
                             received_at = JStr ''t1''\<rparr>]\<rparr>,
          [Pending (JStr ''read'') (JStr ''m9'')], Processed)
    \<and> process_webhook_payload ''t1'' s (messages_col d) = ([], Inl MessageNotFound)"
  using status_for_unseen_message
    [of "''m9''" "[(''type'', JStr ''status''), (''meta_msg_id'', JStr ''m9''), (''status'', JStr ''read'')]"
        "JStr ''read''"
        "\<lparr>messages_col = [],
             pending_col = [\<lparr>pending_meta_msg_id = JStr ''m9'', new_status = JStr ''delivered'',
                              received_at = JStr ''t0''\<rparr>]\<rparr>"
        "''t1''"]
  by (simp add: find_one_def Let_def)

text \<open>
  The claim as it was stated, for every ingestion path, fails on the server: a
  StatusEvent for an id without a record raises MessageNotFound.
\<close>

theorem status_for_unseen_message_counterexample:
  "process_webhook_payload ''t1''
     [(''type'', JStr ''status''), (''meta_msg_id'', JStr ''m9''), (''status'', JStr ''delivered'')]
     []
   = ([], Inl MessageNotFound)"
  by code_simp

section \<open>The buffer drains exactly once (batch processor)\<close>

text \<open>
  Claim C6. Let X be an id with no message record and at most one pending entry. The
  batch processor buffers a StatusEvent(read) for X (it prints the pending line and
  counts the file as processed); the MessageEvent for X that follows is stored with
  the status \<^verbatim>\<open>read\<close> and leaves no pending entry for X; a second, identical
  MessageEvent is skipped as a duplicate, applies no status and leaves the store as
  it is.
\<close>

theorem buffer_drains_once:
  assumes x: "x \<noteq> []"
    and unseen: "find_one (messages_col d) (JStr x) = None"
    and one: "pending_count (pending_col d) (JStr x) \<le> 1"
    and m: "map_of m ''type'' = Some (JStr ''message'')" "map_of m ''meta_msg_id'' = Some (JStr x)"
    and s: "map_of s ''type'' = Some (JStr ''status'')" "map_of s ''meta_msg_id'' = Some (JStr x)"
           "map_of s ''status'' = Some (JStr ''read'')"
  shows "let r1 = process_payload t1 (JObj s) d;
             d2 = fst (process_payload t2 (JObj m) (fst r1))
         in snd r1 = ([Pending (JStr ''read'') (JStr x)], Processed)
          \<and> stored_status d2 (JStr x) = Some (JStr ''read'')
          \<and> find_one_pending (pending_col d2) (JStr x) = None
          \<and> process_payload t3 (JObj m) d2 = (d2, [SkipDuplicate (JStr x)], Skipped)"
proof -
  define d1 where "d1 = d\<lparr>pending_col := upsert_pending (pending_col d) (JStr x) (JStr ''read'') (JStr t1)\<rparr>"
  define d2 where "d2 = fst (process_message t2 m d1)"
  have mid_m: "py_get m ''meta_msg_id'' JNull = JStr x"
    and mid_s: "py_get s ''meta_msg_id'' JNull = JStr x"
    and st_s: "py_get s ''status'' JNull = JStr ''read''"
    using m s by (simp_all add: py_get_Some)
  have tm: "truthy (py_get m ''meta_msg_id'' JNull)" and ts: "truthy (py_get s ''meta_msg_id'' JNull)"
    using x by (simp_all add: mid_m mid_s)
  have r1: "process_status t1 s d = (d1, [Pending (JStr ''read'') (JStr x)], Processed)"
    using process_status_buffered [OF ts, of d t1] unseen by (simp add: mid_s st_s d1_def)
  obtain p where p: "find_one_pending (pending_col d1) (JStr x) = Some p" "new_status p = JStr ''read''"
    using find_one_pending_upsert [of "pending_col d" "JStr x" "JStr ''read''" "JStr t1"]
    by (auto simp: d1_def)
  have stored: "stored_status d2 (JStr x) = Some (JStr ''read'')"
    using stored_status_process_message [OF tm, of t2 d1] p by (simp add: mid_m d2_def)
  have "pending_count (pending_col d1) (JStr x) = 1"
    using one by (simp add: d1_def pending_count_upsert)
  then have "pending_count (pending_col d2) (JStr x) = 0"
    using pending_col_process_message [OF tm, of t2 d1]
    by (simp add: d2_def mid_m pending_count_delete)
  then have drained: "find_one_pending (pending_col d2) (JStr x) = None"
    by (simp add: find_one_pending_None_iff)
  obtain e where e: "find_one (messages_col d2) (JStr x) = Some e"
    using stored by (auto simp: stored_status_def)
  have again: "process_message t3 m d2 = (d2, [SkipDuplicate (JStr x)], Skipped)"
    using process_message_duplicate [OF tm, of d2 e t3] e drained
    by (simp add: mid_m apply_pending_None)
  show ?thesis
    using r1 stored drained again
    by (simp add: Let_def process_payload_message process_payload_status m s d2_def)
qed

theorem buffer_drains_once_witness:
  "let d = \<lparr>messages_col = [], pending_col = []\<rparr>;
       m = JObj [(''type'', JStr ''message''), (''meta_msg_id'', JStr ''X''), (''text'', JStr ''hello'')];
       s = JObj [(''type'', JStr ''status''), (''meta_msg_id'', JStr ''X''), (''status'', JStr ''read'')];
       r1 = process_payload ''t1'' s d;
       d2 = fst (process_payload ''t2'' m (fst r1))
   in find_one (messages_col d) (JStr ''X'') = None
    \<and> pending_count (pending_col d) (JStr ''X'') \<le> 1
    \<and> snd r1 = ([Pending (JStr ''read'') (JStr ''X'')], Processed)
    \<and> stored_status d2 (JStr ''X'') = Some (JStr ''read'')
    \<and> find_one_pending (pending_col d2) (JStr ''X'') = None
    \<and> process_payload ''t3'' m d2 = (d2, [SkipDuplicate (JStr ''X'')], Skipped)"
  using buffer_drains_once
    [of "''X''" "\<lparr>messages_col = [], pending_col = []\<rparr>"
        "[(''type'', JStr ''message''), (''meta_msg_id'', JStr ''X''), (''text'', JStr ''hello'')]"
        "[(''type'', JStr ''status''), (''meta_msg_id'', JStr ''X''), (''status'', JStr ''read'')]"
        "''t1''" "''t2''" "''t3''"]
  by (simp add: find_one_def pending_count_def Let_def)

section \<open>The pending-status drain (batch processor)\<close>

text \<open>
  Claim C7, as amended. When a MessageEvent is processed (the message new or a
  duplicate) and a pending entry exists for its id, the batch processor writes the
  buffered status to the record and deletes the pending entry, with no check of the
  transition: the record ends with the buffered status whatever status it had.
\<close>

theorem pending_drain_applies_unchecked:
  assumes x: "x \<noteq> []"
    and m: "map_of m ''type'' = Some (JStr ''message'')" "map_of m ''meta_msg_id'' = Some (JStr x)"
    and p: "find_one_pending (pending_col d) (JStr x) = Some p"
  shows "let r = process_payload now (JObj m) d
         in stored_status (fst r) (JStr x) = Some (new_status p)
          \<and> pending_col (fst r) = delete_one_pending (pending_col d) (JStr x)
          \<and> pending_count (pending_col (fst r)) (JStr x) = pending_count (pending_col d) (JStr x) - 1
          \<and> fst (snd r) =
              [if find_one (messages_col d) (JStr x) = None then Inserted (JStr x)
               else SkipDuplicate (JStr x),
               Applied (new_status p) (JStr x)]"
proof -
  have mid_m: "py_get m ''meta_msg_id'' JNull = JStr x"
    using m by (simp add: py_get_Some)
  have tm: "truthy (py_get m ''meta_msg_id'' JNull)"
    using x by (simp add: mid_m)
  have stored: "stored_status (fst (process_message now m d)) (JStr x) = Some (new_status p)"
    using stored_status_process_message [OF tm, of now d] p by (simp add: mid_m)
  have deleted: "pending_col (fst (process_message now m d)) = delete_one_pending (pending_col d) (JStr x)"
    using pending_col_process_message [OF tm, of now d] by (simp add: mid_m)
  have printed: "fst (snd (process_message now m d)) =
      [if find_one (messages_col d) (JStr x) = None then Inserted (JStr x) else SkipDuplicate (JStr x),
       Applied (new_status p) (JStr x)]"
  proof (cases "find_one (messages_col d) (JStr x)")
    case None
    then show ?thesis
      using process_message_new [OF tm, of d now] p by (simp add: mid_m apply_pending_Some)
  next
    case (Some e)
    then show ?thesis
      using process_message_duplicate [OF tm, of d e now] p by (simp add: mid_m apply_pending_Some)
  qed
  show ?thesis
    using stored deleted printed
    by (simp add: Let_def process_payload_message m pending_count_delete)
qed

theorem pending_drain_applies_unchecked_witness:
  "let e = \<lparr>wa_id = JStr ''c1'', text_field = JStr ''hi'', meta_msg_id = JStr ''m1'',
             direction = JStr ''inbound'', status = JStr ''read'', timestamp = JStr ''t0''\<rparr>;
       q = \<lparr>pending_meta_msg_id = JStr ''m1'', new_status = JStr ''sent'', received_at = JStr ''t1''\<rparr>;
       d = \<lparr>messages_col = [e], pending_col = [q]\<rparr>;
       r = process_payload ''t2'' (JObj [(''type'', JStr ''message''), (''meta_msg_id'', JStr ''m1'')]) d
   in find_one_pending (pending_col d) (JStr ''m1'') = Some q
    \<and> stored_status d (JStr ''m1'') = Some (JStr ''read'')
    \<and> stored_status (fst r) (JStr ''m1'') = Some (JStr ''sent'')
    \<and> pending_col (fst r) = []
    \<and> fst (snd r) = [SkipDuplicate (JStr ''m1''), Applied (JStr ''sent'') (JStr ''m1'')]"
  using pending_drain_applies_unchecked
    [of "''m1''" "[(''type'', JStr ''message''), (''meta_msg_id'', JStr ''m1'')]"
        "\<lparr>messages_col = [\<lparr>wa_id = JStr ''c1'', text_field = JStr ''hi'', meta_msg_id = JStr ''m1'',
             direction = JStr ''inbound'', status = JStr ''read'', timestamp = JStr ''t0''\<rparr>],
          pending_col = [\<lparr>pending_meta_msg_id = JStr ''m1'', new_status = JStr ''sent'', received_at = JStr ''t1''\<rparr>]\<rparr>"
        "\<lparr>pending_meta_msg_id = JStr ''m1'', new_status = JStr ''sent'', received_at = JStr ''t1''\<rparr>"
        "''t2''"]
  by (simp add: find_one_def find_one_pending_def Let_def stored_status_def)

text \<open>
  The claim as it was stated fails on the run below, from an empty store. The status
  \<^verbatim>\<open>delivered\<close> arrives first and is buffered; the message arrives with the status
  \<^verbatim>\<open>read\<close>. The table \<^verbatim>\<open>VALID_STATUS_TRANSITIONS\<close> allows no transition out of
  \<^verbatim>\<open>read\<close>, yet the drain applies the buffered \<^verbatim>\<open>delivered\<close>.
\<close>

theorem pending_drain_validated_counterexample:
  "valid_next (JStr ''read'') = Inr []
   \<and> new_doc ''t2''
        [(''type'', JStr ''message''), (''meta_msg_id'', JStr ''m1''), (''wa_id'', JStr ''c1''),
         (''text'', JStr ''hi''), (''status'', JStr ''read'')]
      = \<lparr>wa_id = JStr ''c1'', text_field = JStr ''hi'', meta_msg_id = JStr ''m1'',
         direction = JStr ''inbound'', status = JStr ''read'', timestamp = JStr ''t2''\<rparr>
   \<and> process_payload ''t2''
        (JObj [(''type'', JStr ''message''), (''meta_msg_id'', JStr ''m1''), (''wa_id'', JStr ''c1''),
               (''text'', JStr ''hi''), (''status'', JStr ''read'')])
        (fst (process_payload ''t1''
           (JObj [(''type'', JStr ''status''), (''meta_msg_id'', JStr ''m1''),
                  (''status'', JStr ''delivered'')])
           \<lparr>messages_col = [], pending_col = []\<rparr>))
      = (\<lparr>messages_col =
            [\<lparr>wa_id = JStr ''c1'', text_field = JStr ''hi'', meta_msg_id = JStr ''m1'',
              direction = JStr ''inbound'', status = JStr ''delivered'', timestamp = JStr ''t2''\<rparr>],
          pending_col = []\<rparr>,
         [Inserted (JStr ''m1''), Applied (JStr ''delivered'') (JStr ''m1'')], Processed)"
  by code_simp

section \<open>A malformed payload is unrecognized and does not stop the batch\<close>

text \<open>
  Claim C8. Whenever the parsing of the provider envelope raises (an access to a
  missing intermediate key, to a value of the wrong type or to an empty array; the
  lemmas on \<open>envelope_value\<close> above name the cases), the normalizer returns \<^verbatim>\<open>None\<close>,
  the spec's Unrecognized. The loop of the batch processor then prints the skip line,
  counts the file as skipped, leaves the store as it is and goes on with the files
  that follow: every file of the batch is counted exactly once.
\<close>

theorem malformed_payload_is_skipped:
  assumes other: "py_get kvs ''type'' JNull \<notin> {JStr ''message'', JStr ''status''}"
    and raises: "parse_envelope to_iso now (envelope_meta kvs) = Inl e"
  shows "normalize_webhook_payload to_iso now (JObj kvs) = None
       \<and> store (process_file to_iso r (now, Some (JObj kvs))) = store r
       \<and> process_files to_iso r (before @ (now, Some (JObj kvs)) # after) =
           process_files to_iso
             (count Skipped
                ((process_files to_iso r before)
                   \<lparr>printed := printed (process_files to_iso r before) @ [SkipUnknownStructure]\<rparr>))
             after
       \<and> processed (process_files to_iso r (before @ (now, Some (JObj kvs)) # after))
           + skipped (process_files to_iso r (before @ (now, Some (JObj kvs)) # after))
           + errors (process_files to_iso r (before @ (now, Some (JObj kvs)) # after))
           = processed r + skipped r + errors r + length before + 1 + length after"
proof -
  have none: "normalize_webhook_payload to_iso now (JObj kvs) = None"
    using raises by (simp add: normalize_not_canonical [OF other])
  have skip: "process_file to_iso q (now, Some (JObj kvs)) =
      count Skipped (q\<lparr>printed := printed q @ [SkipUnknownStructure]\<rparr>)" for q
    using none by (rule process_file_unrecognized)
  have untouched: "store (process_file to_iso r (now, Some (JObj kvs))) = store r"
    by (simp add: skip count_def)
  have goes_on: "process_files to_iso r (before @ (now, Some (JObj kvs)) # after) =
      process_files to_iso
        (count Skipped
           ((process_files to_iso r before)
              \<lparr>printed := printed (process_files to_iso r before) @ [SkipUnknownStructure]\<rparr>))
        after"
    by (simp add: process_files_append process_files_Cons skip)
  show ?thesis
    using none untouched goes_on
      counters_process_files [of to_iso r "before @ (now, Some (JObj kvs)) # after"]
    by simp
qed

theorem malformed_payload_is_skipped_witness:
  "let bad = [(''metaData'', JObj [(''entry'', JList [])])];
       good = JObj [(''type'', JStr ''message''), (''meta_msg_id'', JStr ''m1''), (''text'', JStr ''hi'')];
       r = \<lparr>store = \<lparr>messages_col = [], pending_col = []\<rparr>,
             processed = 0, skipped = 0, errors = 0, printed = []\<rparr>;
       r' = process_files (map_of []) r [(''t1'', Some (JObj bad)), (''t2'', Some good)]
   in parse_envelope (map_of []) ''t1'' (envelope_meta bad) = Inl IndexError
    \<and> normalize_webhook_payload (map_of []) ''t1'' (JObj bad) = None
    \<and> printed r' = [SkipUnknownStructure, Inserted (JStr ''m1'')]
    \<and> (processed r', skipped r', errors r') = (1, 1, 0)
    \<and> map meta_msg_id (messages_col (store r')) = [JStr ''m1'']"
proof -
  have raises: "parse_envelope (map_of []) ''t1''
      (envelope_meta [(''metaData'', JObj [(''entry'', JList [])])]) = Inl IndexError"
    by code_simp
  have other: "py_get [(''metaData'', JObj [(''entry'', JList [])])] ''type'' JNull
      \<notin> {JStr ''message'', JStr ''status''}"
    by (simp add: py_get_def)
  have run: "process_files (map_of [])
      (count Skipped
        (\<lparr>store = \<lparr>messages_col = [], pending_col = []\<rparr>,
           processed = 0, skipped = 0, errors = 0, printed = []\<rparr>
         \<lparr>printed := [] @ [SkipUnknownStructure]\<rparr>))
      [(''t2'', Some (JObj [(''type'', JStr ''message''), (''meta_msg_id'', JStr ''m1''),
                             (''text'', JStr ''hi'')]))]
    = \<lparr>store = \<lparr>messages_col =
           [\<lparr>wa_id = JNull, text_field = JStr ''hi'', meta_msg_id = JStr ''m1'',
             direction = JStr ''inbound'', status = JStr ''delivered'', timestamp = JStr ''t2''\<rparr>],
          pending_col = []\<rparr>,
        processed = 1, skipped = 1, errors = 0,
        printed = [SkipUnknownStructure, Inserted (JStr ''m1'')]\<rparr>"
    by code_simp
  show ?thesis
    using malformed_payload_is_skipped [OF other raises,
        of "\<lparr>store = \<lparr>messages_col = [], pending_col = []\<rparr>,
             processed = 0, skipped = 0, errors = 0, printed = []\<rparr>"
           "[]"
           "[(''t2'', Some (JObj [(''type'', JStr ''message''), (''meta_msg_id'', JStr ''m1''),
                                  (''text'', JStr ''hi'')]))]"]
      raises run
    by (simp add: Let_def process_files_def [of _ _ "[]"])
qed

section \<open>The event made from an inbound message of the envelope\<close>

text \<open>
  Claim C9, as amended. For every provider-envelope payload whose \<^verbatim>\<open>value.messages\<close>
  array is non-empty, with a dict as its first element and a sender that can be read,
  the normalizer returns a MessageEvent whose direction is \<^verbatim>\<open>inbound\<close> and whose
  status is \<^verbatim>\<open>delivered\<close>: the two are constants of the code, and no status of the
  source payload is read.
\<close>

theorem envelope_message_is_inbound_delivered:
  assumes other: "py_get kvs ''type'' JNull \<notin> {JStr ''message'', JStr ''status''}"
    and val: "envelope_value (envelope_meta kvs) = Inr (JObj vk)"
    and msgs: "map_of vk ''messages'' = Some (JList (JObj mk # others))"
    and sender: "contact_wa_id (py_get vk ''contacts'' (JList [])) = Inr wa"
  shows "\<exists>ev. normalize_webhook_payload to_iso now (JObj kvs) = Some (JObj ev)
            \<and> map_of ev ''type'' = Some (JStr ''message'')
            \<and> map_of ev ''meta_msg_id'' = Some (py_or (py_get mk ''id'' JNull) (py_get mk ''mid'' JNull))
            \<and> map_of ev ''wa_id'' = Some wa
            \<and> map_of ev ''direction'' = Some (JStr ''inbound'')
            \<and> map_of ev ''status'' = Some (JStr ''delivered'')"
proof -
  obtain body where body: "message_text (JObj mk) = Inr body"
    using message_text_dict by blast
  have meta: "truthy (envelope_meta kvs)"
    using val by (rule envelope_value_truthy)
  have "inbound_message to_iso now (JObj vk) =
      Inr (JObj
        [(''type'', JStr ''message''),
         (''wa_id'', wa),
         (''meta_msg_id'', py_or (py_get mk ''id'' JNull) (py_get mk ''mid'' JNull)),
         (''text'', body),
         (''timestamp'', iso_or_now now
            (timestamp_iso to_iso (py_or (py_get mk ''timestamp'' JNull) (py_get mk ''ts'' JNull)))),
         (''direction'', JStr ''inbound''),
         (''status'', JStr ''delivered'')])"
    using msgs sender body by (simp add: inbound_message_def bindE_Inr py_or_def)
  then have "parse_envelope to_iso now (envelope_meta kvs) =
      Inr (Some (JObj
        [(''type'', JStr ''message''),
         (''wa_id'', wa),
         (''meta_msg_id'', py_or (py_get mk ''id'' JNull) (py_get mk ''mid'' JNull)),
         (''text'', body),
         (''timestamp'', iso_or_now now
            (timestamp_iso to_iso (py_or (py_get mk ''timestamp'' JNull) (py_get mk ''ts'' JNull)))),
         (''direction'', JStr ''inbound''),
         (''status'', JStr ''delivered'')]))"
    using val msgs by (simp add: parse_envelope_def bindE_Inr py_get_Some)
  then show ?thesis
    using meta by (simp add: normalize_not_canonical [OF other])
qed

theorem envelope_message_is_inbound_delivered_witness:
  "let vk = [(''messages'', JList [JObj [(''id'', JStr ''m1''), (''status'', JStr ''read'')]]),
             (''contacts'', JList [JObj [(''wa_id'', JStr ''c1'')]])];
       kvs = [(''metaData'', JObj [(''entry'', JList [JObj [(''changes'', JList [JObj [(''value'', JObj vk)]])]])])]
   in envelope_value (envelope_meta kvs) = Inr (JObj vk)
    \<and> contact_wa_id (py_get vk ''contacts'' (JList [])) = Inr (JStr ''c1'')
    \<and> (\<exists>ev. normalize_webhook_payload (map_of []) ''t1'' (JObj kvs) = Some (JObj ev)
           \<and> map_of ev ''meta_msg_id'' = Some (JStr ''m1'')
           \<and> map_of ev ''direction'' = Some (JStr ''inbound'')
           \<and> map_of ev ''status'' = Some (JStr ''delivered''))"
proof -
  have val: "envelope_value (envelope_meta
      [(''metaData'', JObj [(''entry'', JList [JObj [(''changes'', JList [JObj [(''value'',
         JObj [(''messages'', JList [JObj [(''id'', JStr ''m1''), (''status'', JStr ''read'')]]),
               (''contacts'', JList [JObj [(''wa_id'', JStr ''c1'')]])])]])]])])])
    = Inr (JObj [(''messages'', JList [JObj [(''id'', JStr ''m1''), (''status'', JStr ''read'')]]),
                 (''contacts'', JList [JObj [(''wa_id'', JStr ''c1'')]])])"
    by code_simp
  have sender: "contact_wa_id
      (py_get [(''messages'', JList [JObj [(''id'', JStr ''m1''), (''status'', JStr ''read'')]]),
               (''contacts'', JList [JObj [(''wa_id'', JStr ''c1'')]])] ''contacts'' (JList []))
    = Inr (JStr ''c1'')"
    by code_simp
  have other: "py_get
      [(''metaData'', JObj [(''entry'', JList [JObj [(''changes'', JList [JObj [(''value'',
         JObj [(''messages'', JList [JObj [(''id'', JStr ''m1''), (''status'', JStr ''read'')]]),
               (''contacts'', JList [JObj [(''wa_id'', JStr ''c1'')]])])]])]])])] ''type'' JNull
    \<notin> {JStr ''message'', JStr ''status''}"
    by (simp add: py_get_def)
  have msgs: "map_of
      [(''messages'', JList [JObj [(''id'', JStr ''m1''), (''status'', JStr ''read'')]]),
       (''contacts'', JList [JObj [(''wa_id'', JStr ''c1'')]])] ''messages''
    = Some (JList (JObj [(''id'', JStr ''m1''), (''status'', JStr ''read'')] # []))"
    by simp
  obtain ev where ev:
      "normalize_webhook_payload (map_of []) ''t1''
         (JObj [(''metaData'', JObj [(''entry'', JList [JObj [(''changes'', JList [JObj [(''value'',
            JObj [(''messages'', JList [JObj [(''id'', JStr ''m1''), (''status'', JStr ''read'')]]),
                  (''contacts'', JList [JObj [(''wa_id'', JStr ''c1'')]])])]])]])])])
       = Some (JObj ev)"
      "map_of ev ''meta_msg_id'' =
         Some (py_or (py_get [(''id'', JStr ''m1''), (''status'', JStr ''read'')] ''id'' JNull)
                 (py_get [(''id'', JStr ''m1''), (''status'', JStr ''read'')] ''mid'' JNull))"
      "map_of ev ''direction'' = Some (JStr ''inbound'')"
      "map_of ev ''status'' = Some (JStr ''delivered'')"
    using envelope_message_is_inbound_delivered [OF other val msgs sender, of "map_of []" "''t1''"]
    by blast
  have "map_of ev ''meta_msg_id'' = Some (JStr ''m1'')"
    using ev(2) by (simp add: py_or_def py_get_def)
  then show ?thesis
    unfolding Let_def using val sender ev(1) ev(3) ev(4) by blast
qed

text \<open>
  The claim as it was stated fails on the envelope below, which specifies the status
  \<^verbatim>\<open>read\<close> at the message, at the value and at the top of the payload: the event has
  the status \<^verbatim>\<open>delivered\<close>.
\<close>

theorem envelope_message_status_counterexample:
  "normalize_webhook_payload (map_of [(JStr ''1700000000'', ''2023-11-14T22:13:20+00:00'')]) ''t1''
     (JObj
       [(''metaData'',
         JObj [(''entry'', JList [JObj [(''changes'', JList [JObj [(''value'',
           JObj [(''status'', JStr ''read''),
                 (''messages'',
                  JList [JObj [(''id'', JStr ''m1''), (''status'', JStr ''read''),
                               (''text'', JObj [(''body'', JStr ''hi'')]),
                               (''timestamp'', JStr ''1700000000'')]]),
                 (''contacts'', JList [JObj [(''wa_id'', JStr ''c1'')]])])]])]])]),
        (''status'', JStr ''read'')])
   = Some (JObj
       [(''type'', JStr ''message''),
        (''wa_id'', JStr ''c1''),
        (''meta_msg_id'', JStr ''m1''),
        (''text'', JStr ''hi''),
        (''timestamp'', JStr ''2023-11-14T22:13:20+00:00''),
        (''direction'', JStr ''inbound''),
        (''status'', JStr ''delivered'')])"
  by code_simp

section \<open>A repeated status is buffered for a message already seen (batch processor)\<close>

text \<open>
  Claim C10. The batch processor takes \<^verbatim>\<open>modified_count > 0\<close> for "the message
  exists", and for an existing record \<^verbatim>\<open>modified_count\<close> is positive exactly when the
  requested status differs from the stored one. A StatusEvent that requests the
  status \<open>v\<close> the record already has therefore modifies nothing and is buffered: the
  record is still there, unchanged, and a pending entry with the status \<open>v\<close> now
  exists beside it. The next duplicate MessageEvent for the id applies that entry to
  the record and deletes it. Applied at once, it leaves the record at \<open>v\<close>; when a
  StatusEvent with another status \<open>w\<close> came in between (it finds the record, has
  \<^verbatim>\<open>modified_count\<close> 1 and stores \<open>w\<close>, leaving the pending entry alone), the
  duplicate sets the record back from \<open>w\<close> to \<open>v\<close>.
\<close>

theorem repeated_status_is_buffered:
  assumes x: "x \<noteq> []"
    and seen: "find_one (messages_col d) (JStr x) = Some e"
    and same: "status e = v"
    and other: "w \<noteq> v"
    and m: "map_of m ''type'' = Some (JStr ''message'')" "map_of m ''meta_msg_id'' = Some (JStr x)"
    and s: "map_of s ''type'' = Some (JStr ''status'')" "map_of s ''meta_msg_id'' = Some (JStr x)"
           "map_of s ''status'' = Some v"
    and s2: "map_of s2 ''type'' = Some (JStr ''status'')" "map_of s2 ''meta_msg_id'' = Some (JStr x)"
            "map_of s2 ''status'' = Some w"
  shows "let r1 = process_payload t1 (JObj s) d;
             r2 = process_payload t2 (JObj m) (fst r1);
             q2 = process_payload t2 (JObj s2) (fst r1);
             q3 = process_payload t3 (JObj m) (fst q2)
         in (\<forall>u. (0 < snd (update_one_status (messages_col d) (JStr x) u)) = (status e \<noteq> u))
          \<and> r1 = (d\<lparr>pending_col := upsert_pending (pending_col d) (JStr x) v (JStr t1)\<rparr>,
                   [Pending v (JStr x)], Processed)
          \<and> find_one (messages_col (fst r1)) (JStr x) = Some e
          \<and> (\<exists>p. find_one_pending (pending_col (fst r1)) (JStr x) = Some p \<and> new_status p = v)
          \<and> r2 = (d\<lparr>pending_col :=
                        delete_one_pending
                          (upsert_pending (pending_col d) (JStr x) v (JStr t1)) (JStr x)\<rparr>,
                   [SkipDuplicate (JStr x), Applied v (JStr x)], Skipped)
          \<and> stored_status (fst r2) (JStr x) = Some v
          \<and> q2 = ((fst r1)\<lparr>messages_col := fst (update_one_status (messages_col d) (JStr x) w)\<rparr>,
                   [Updated (JStr x) w], Processed)
          \<and> stored_status (fst q2) (JStr x) = Some w
          \<and> snd q3 = ([SkipDuplicate (JStr x), Applied v (JStr x)], Skipped)
          \<and> stored_status (fst q3) (JStr x) = Some v
          \<and> pending_col (fst q3) = delete_one_pending (pending_col (fst r1)) (JStr x)
          \<and> pending_count (pending_col (fst q3)) (JStr x)
              = max 1 (pending_count (pending_col d) (JStr x)) - 1"
proof -
  define d1 where "d1 = d\<lparr>pending_col := upsert_pending (pending_col d) (JStr x) v (JStr t1)\<rparr>"
  define d2 where "d2 = d1\<lparr>messages_col := fst (update_one_status (messages_col d) (JStr x) w)\<rparr>"
  have mid_m: "py_get m ''meta_msg_id'' JNull = JStr x"
    and mid_s: "py_get s ''meta_msg_id'' JNull = JStr x"
    and st_s: "py_get s ''status'' JNull = v"
    and mid_s2: "py_get s2 ''meta_msg_id'' JNull = JStr x"
    and st_s2: "py_get s2 ''status'' JNull = w"
    using m s s2 by (simp_all add: py_get_Some)
  have tm: "truthy (py_get m ''meta_msg_id'' JNull)" and ts: "truthy (py_get s ''meta_msg_id'' JNull)"
    and ts2: "truthy (py_get s2 ''meta_msg_id'' JNull)"
    using x by (simp_all add: mid_m mid_s mid_s2)
  \<comment> \<open>the decision by \<^verbatim>\<open>modified_count\<close>\<close>
  have decides: "\<forall>u. (0 < snd (update_one_status (messages_col d) (JStr x) u)) = (status e \<noteq> u)"
    using seen by (simp add: modified_count_pos_iff)
  have unmodified: "update_one_status (messages_col d) (JStr x) v = (messages_col d, 0)"
    using seen same by (rule update_one_status_same)
  \<comment> \<open>the repeat is buffered\<close>
  have r1: "process_status t1 s d = (d1, [Pending v (JStr x)], Processed)"
    using process_status_buffered [OF ts, of d t1] seen same by (simp add: mid_s st_s d1_def)
  have still: "find_one (messages_col d1) (JStr x) = Some e"
    using seen by (simp add: d1_def)
  obtain p where p: "find_one_pending (pending_col d1) (JStr x) = Some p" "new_status p = v"
    using find_one_pending_upsert [of "pending_col d" "JStr x" v "JStr t1"]
    by (auto simp: d1_def)
  \<comment> \<open>the duplicate at once\<close>
  have r2: "process_message t2 m d1 =
      (d\<lparr>pending_col := delete_one_pending (upsert_pending (pending_col d) (JStr x) v (JStr t1)) (JStr x)\<rparr>,
       [SkipDuplicate (JStr x), Applied v (JStr x)], Skipped)"
    using process_message_duplicate [OF tm, of d1 e t2] still p unmodified
    by (simp add: mid_m apply_pending_Some d1_def)
  have stored2: "stored_status (fst (process_message t2 m d1)) (JStr x) = Some v"
    using stored_status_process_message [OF tm, of t2 d1] p by (simp add: mid_m)
  \<comment> \<open>another status in between\<close>
  have differs: "status e \<noteq> py_get s2 ''status'' JNull"
    using same other by (simp add: st_s2)
  have q2: "process_status t2 s2 d1 = (d2, [Updated (JStr x) w], Processed)"
    using process_status_updated [OF ts2, of d1 e t2] still differs
    by (simp add: mid_s2 st_s2 d2_def d1_def)
  have found2: "find_one (messages_col d2) (JStr x) = Some (e\<lparr>status := w\<rparr>)"
    using seen by (simp add: d2_def find_one_update_one_status)
  then have stored_w: "stored_status d2 (JStr x) = Some w"
    by (simp add: stored_status_def)
  have p2: "find_one_pending (pending_col d2) (JStr x) = Some p"
    using p by (simp add: d2_def)
  have q3: "snd (process_message t3 m d2) = ([SkipDuplicate (JStr x), Applied v (JStr x)], Skipped)"
    using process_message_duplicate [OF tm, of d2 "e\<lparr>status := w\<rparr>" t3] found2 p2 p(2)
    by (simp add: mid_m apply_pending_Some)
  have stored3: "stored_status (fst (process_message t3 m d2)) (JStr x) = Some v"
    using stored_status_process_message [OF tm, of t3 d2] p2 p(2) by (simp add: mid_m)
  have gone: "pending_col (fst (process_message t3 m d2)) = delete_one_pending (pending_col d1) (JStr x)"
    using pending_col_process_message [OF tm, of t3 d2] by (simp add: mid_m d2_def)
  have counted: "pending_count (pending_col (fst (process_message t3 m d2))) (JStr x)
      = max 1 (pending_count (pending_col d) (JStr x)) - 1"
    by (simp add: gone d1_def pending_count_delete pending_count_upsert)
  show ?thesis
    using decides r1 still p r2 stored2 q2 stored_w q3 stored3 gone counted
    by (simp add: Let_def process_payload_message process_payload_status m s s2 d1_def d2_def)
qed

theorem repeated_status_is_buffered_witness:
  "let e = \<lparr>wa_id = JStr ''c1'', text_field = JStr ''hi'', meta_msg_id = JStr ''m1'',
             direction = JStr ''inbound'', status = JStr ''delivered'', timestamp = JStr ''t0''\<rparr>;
       d = \<lparr>messages_col = [e], pending_col = []\<rparr>;
       m = JObj [(''type'', JStr ''message''), (''meta_msg_id'', JStr ''m1''), (''text'', JStr ''hi'')];
       s = JObj [(''type'', JStr ''status''), (''meta_msg_id'', JStr ''m1''), (''status'', JStr ''delivered'')];
       s2 = JObj [(''type'', JStr ''status''), (''meta_msg_id'', JStr ''m1''), (''status'', JStr ''read'')];
       r1 = process_payload ''t1'' s d;
       r2 = process_payload ''t2'' m (fst r1);
       q2 = process_payload ''t2'' s2 (fst r1);
       q3 = process_payload ''t3'' m (fst q2)
   in find_one (messages_col d) (JStr ''m1'') = Some e
    \<and> JStr ''read'' \<noteq> JStr ''delivered''
    \<and> snd (update_one_status (messages_col d) (JStr ''m1'') (JStr ''delivered'')) = 0
    \<and> snd (update_one_status (messages_col d) (JStr ''m1'') (JStr ''read'')) = 1
    \<and> r1 = (\<lparr>messages_col = [e],
               pending_col = [\<lparr>pending_meta_msg_id = JStr ''m1'', new_status = JStr ''delivered'',
                                received_at = JStr ''t1''\<rparr>]\<rparr>,
             [Pending (JStr ''delivered'') (JStr ''m1'')], Processed)
    \<and> r2 = (d, [SkipDuplicate (JStr ''m1''), Applied (JStr ''delivered'') (JStr ''m1'')], Skipped)
    \<and> q2 = (\<lparr>messages_col = [e\<lparr>status := JStr ''read''\<rparr>],
               pending_col = [\<lparr>pending_meta_msg_id = JStr ''m1'', new_status = JStr ''delivered'',
                                received_at = JStr ''t1''\<rparr>]\<rparr>,
             [Updated (JStr ''m1'') (JStr ''read'')], Processed)
    \<and> q3 = (d, [SkipDuplicate (JStr ''m1''), Applied (JStr ''delivered'') (JStr ''m1'')], Skipped)
    \<and> stored_status (fst q2) (JStr ''m1'') = Some (JStr ''read'')
    \<and> stored_status (fst q3) (JStr ''m1'') = Some (JStr ''delivered'')"
  using repeated_status_is_buffered
    [of "''m1''" "\<lparr>messages_col = [\<lparr>wa_id = JStr ''c1'', text_field = JStr ''hi'', meta_msg_id = JStr ''m1'',
             direction = JStr ''inbound'', status = JStr ''delivered'', timestamp = JStr ''t0''\<rparr>], pending_col = []\<rparr>"
        "\<lparr>wa_id = JStr ''c1'', text_field = JStr ''hi'', meta_msg_id = JStr ''m1'',
             direction = JStr ''inbound'', status = JStr ''delivered'', timestamp = JStr ''t0''\<rparr>"
        "JStr ''delivered''" "JStr ''read''"
        "[(''type'', JStr ''message''), (''meta_msg_id'', JStr ''m1''), (''text'', JStr ''hi'')]"
        "[(''type'', JStr ''status''), (''meta_msg_id'', JStr ''m1''), (''status'', JStr ''delivered'')]"
        "[(''type'', JStr ''status''), (''meta_msg_id'', JStr ''m1''), (''status'', JStr ''read'')]"
        "''t1''" "''t2''" "''t3''"]
  by (simp add: find_one_def Let_def process_payload_def process_message_def process_status_def
      apply_pending_def find_one_pending_def py_get_def stored_status_def)

end
